theory Spec2Isabelle
  imports Main
begin

section \<open>JavaScript values, objects and the host platform\<close>

text \<open>
  The module \<^verbatim>\<open>ui.js\<close> is forty lines of glue between application code and the
  browser's Custom Elements registry. What it does is decided by three pieces of state:
  the object heap (elements, handles and function objects, each with an identity), the
  platform's registry \<^verbatim>\<open>customElements\<close>, and the module's private
  \<^verbatim>\<open>instances\<close> WeakMap. The model keeps all three explicit and threads them
  through every operation.

  Objects live in a heap and are named by their address, so that "the same handle object"
  is equality of addresses. Property lookup reads own data properties only: prototype
  chains, accessors and proxies are not modelled. Nothing is ever removed from the heap:
  garbage collection, and with it the weakness of the WeakMap, is outside the model.
\<close>

type_synonym addr = nat

datatype jsval = Undefined | Null | Bool bool | Num int | Str string | Ref addr

text \<open>Exceptions are values: the platform's own error classes and anything user code throws.\<close>

datatype error = TypeError | SyntaxError | NotSupportedError | InvalidCharacterError
  | Thrown jsval

datatype completion = Normal jsval | Abrupt error

text \<open>
  Application code (an initializer, a \<^verbatim>\<open>connect\<close> procedure, a script of the page) is
  a tree of the operations through which it can reach this layer, each with the
  continuation that receives its result (in an object literal a later field of the same
  name wins; the functions that it creates are arrow functions, given with their
  \<^verbatim>\<open>name\<close> and number of parameters). It can call any function value, build and mutate
  objects, create elements by tag name, insert them into the document and remove them,
  and register custom elements of its own. It cannot name the \<^verbatim>\<open>instances\<close> map:
  that variable is private to the module.
\<close>

datatype prog =
    Return jsval
  | Raise error
  | Try prog "completion \<Rightarrow> prog"
  | Call jsval "jsval list" "jsval \<Rightarrow> prog"
  | NewObject "(string \<times> jsval) list" "jsval \<Rightarrow> prog"
  | NewFunction string int "jsval list \<Rightarrow> prog" "jsval \<Rightarrow> prog"
  | GetProp jsval string "jsval \<Rightarrow> prog"
  | SetProp jsval string jsval prog
  | DeleteProp jsval string prog
  | CreateElement string "jsval \<Rightarrow> prog"
  | Append jsval prog
  | Remove jsval prog
  | IsConnected jsval "bool \<Rightarrow> prog"
  | Define string jsval jsval prog

text \<open>
  A function object is the exported \<^verbatim>\<open>ui\<close>, a \<^verbatim>\<open>make_element\<close> closure over its
  \<^verbatim>\<open>tag\<close> and \<^verbatim>\<open>create\<close>, or a function of the application.
\<close>

datatype callable = UiFn | MakeElement string jsval | User "jsval list \<Rightarrow> prog"

datatype kind = Plain | Element string | Function callable

record obj =
  props :: "string \<rightharpoonup> jsval"
  frozen :: bool
  kind :: kind

text \<open>
  A registered custom element definition is the anonymous class that \<^verbatim>\<open>ui\<close> passes to
  \<^verbatim>\<open>customElements.define\<close>, or a class registered by other code, of which only the
  two lifecycle callbacks matter here (\<open>Undefined\<close> when the class has none).
\<close>

datatype element_definition = UiClass | Foreign jsval jsval

text \<open>
  The trace is a ghost log: it records each successful platform registration and each
  invocation of an initializer by \<^verbatim>\<open>make_element\<close> (element, initializer, params).
\<close>

datatype event = Defined string | Init addr jsval jsval

record world =
  heap :: "obj list"
  registry :: "string \<rightharpoonup> element_definition"
  attached :: "addr set"
  instances :: "addr \<rightharpoonup> jsval"
  reported :: "error list"
  trace :: "event list"

type_synonym callfn = "jsval \<Rightarrow> jsval list \<Rightarrow> world \<Rightarrow> (completion \<times> world) option"

subsection \<open>Heap primitives\<close>

definition lookup :: "world \<Rightarrow> addr \<Rightarrow> obj option" where
  "lookup w a = (if a < length (heap w) then Some (heap w ! a) else None)"

definition alloc :: "obj \<Rightarrow> world \<Rightarrow> addr \<times> world" where
  "alloc ob w = (length (heap w), w\<lparr>heap := heap w @ [ob]\<rparr>)"

definition callable_of :: "world \<Rightarrow> jsval \<Rightarrow> callable option" where
  "callable_of w v =
     (case v of
        Ref a \<Rightarrow>
          (case lookup w a of
             Some ob \<Rightarrow> (case kind ob of Function c \<Rightarrow> Some c | _ \<Rightarrow> None)
           | None \<Rightarrow> None)
      | _ \<Rightarrow> None)"

text \<open>\<^verbatim>\<open>typeof v === "function"\<close>\<close>

definition typeof_function :: "world \<Rightarrow> jsval \<Rightarrow> bool" where
  "typeof_function w v = (callable_of w v \<noteq> None)"

definition tag_of :: "world \<Rightarrow> addr \<Rightarrow> string option" where
  "tag_of w a =
     (case lookup w a of
        Some ob \<Rightarrow> (case kind ob of Element t \<Rightarrow> Some t | _ \<Rightarrow> None)
      | None \<Rightarrow> None)"

text \<open>
  \<^verbatim>\<open>v.name\<close> for a value that is neither \<^verbatim>\<open>undefined\<close> nor \<^verbatim>\<open>null\<close>: an own
  property of an object, \<^verbatim>\<open>undefined\<close> on a primitive.
\<close>

definition get_prop :: "world \<Rightarrow> jsval \<Rightarrow> string \<Rightarrow> jsval" where
  "get_prop w v name =
     (case v of
        Ref a \<Rightarrow>
          (case lookup w a of
             Some ob \<Rightarrow> (case props ob name of Some x \<Rightarrow> x | None \<Rightarrow> Undefined)
           | None \<Rightarrow> Undefined)
      | _ \<Rightarrow> Undefined)"

text \<open>\<^verbatim>\<open>v?.name\<close>: optional chaining short-circuits on \<^verbatim>\<open>undefined\<close> and \<^verbatim>\<open>null\<close>.\<close>

definition optional_get :: "world \<Rightarrow> jsval \<Rightarrow> string \<Rightarrow> jsval" where
  "optional_get w v name =
     (if v = Undefined \<or> v = Null then Undefined else get_prop w v name)"

text \<open>
  Writing or deleting a property, as strict code does it (the module and whatever imports
  it are module code, which is strict). A write to a frozen object or to a value that is
  no object throws. Deleting a property that the object does not have does nothing and
  yields \<^verbatim>\<open>true\<close>, frozen or not; deleting a property of a frozen object throws.
  Either way a frozen object is left as it was.

  The \<^verbatim>\<open>name\<close> and \<^verbatim>\<open>length\<close> of a function are read-only, frozen or not, so a
  write to them throws. An element has the properties that code has put on it; those that
  the DOM defines are not modelled.

  The one name that never becomes an own property is \<^verbatim>\<open>__proto__\<close>, which every
  object inherits as an accessor. Its setter ignores a value that is neither an object nor
  \<^verbatim>\<open>null\<close>, and ignores a receiver that is no object; it changes the prototype
  otherwise, which a frozen object refuses. Prototypes are not part of the model, so such
  a write stores nothing.
\<close>

definition object_or_null :: "jsval \<Rightarrow> bool" where
  "object_or_null x = (case x of Ref _ \<Rightarrow> True | Null \<Rightarrow> True | _ \<Rightarrow> False)"

definition read_only :: "obj \<Rightarrow> string \<Rightarrow> bool" where
  "read_only ob name =
     (frozen ob
      \<or> (case kind ob of Function _ \<Rightarrow> name = ''name'' \<or> name = ''length'' | _ \<Rightarrow> False))"

definition set_prop :: "jsval \<Rightarrow> string \<Rightarrow> jsval \<Rightarrow> world \<Rightarrow> completion \<times> world" where
  "set_prop v name x w =
     (case v of
        Ref a \<Rightarrow>
          (case lookup w a of
             Some ob \<Rightarrow>
               if name = ''__proto__'' then
                 (if frozen ob \<and> object_or_null x then (Abrupt TypeError, w) else (Normal x, w))
               else if read_only ob name then (Abrupt TypeError, w)
               else (Normal x, w\<lparr>heap := (heap w)[a := ob\<lparr>props := (props ob)(name \<mapsto> x)\<rparr>]\<rparr>)
           | None \<Rightarrow> (Abrupt TypeError, w))
      | Undefined \<Rightarrow> (Abrupt TypeError, w)
      | Null \<Rightarrow> (Abrupt TypeError, w)
      | _ \<Rightarrow> if name = ''__proto__'' then (Normal x, w) else (Abrupt TypeError, w))"

definition delete_prop :: "jsval \<Rightarrow> string \<Rightarrow> world \<Rightarrow> completion \<times> world" where
  "delete_prop v name w =
     (case v of
        Ref a \<Rightarrow>
          (case lookup w a of
             Some ob \<Rightarrow>
               if props ob name = None then (Normal (Bool True), w)
               else if frozen ob then (Abrupt TypeError, w)
               else (Normal (Bool True),
                     w\<lparr>heap := (heap w)[a := ob\<lparr>props := (props ob)(name := None)\<rparr>]\<rparr>)
           | None \<Rightarrow> (Abrupt TypeError, w))
      | Undefined \<Rightarrow> (Abrupt TypeError, w)
      | Null \<Rightarrow> (Abrupt TypeError, w)
      | _ \<Rightarrow> (Normal (Bool True), w))"

text \<open>
  \<^verbatim>\<open>Object.freeze(v)\<close> returns its argument; an object becomes non-extensible with every
  own property read-only and non-configurable, which the model keeps as one flag.
\<close>

definition object_freeze :: "jsval \<Rightarrow> world \<Rightarrow> jsval \<times> world" where
  "object_freeze v w =
     (case v of
        Ref a \<Rightarrow>
          (case lookup w a of
             Some ob \<Rightarrow> (v, w\<lparr>heap := (heap w)[a := ob\<lparr>frozen := True\<rparr>]\<rparr>)
           | None \<Rightarrow> (v, w))
      | _ \<Rightarrow> (v, w))"

text \<open>
  A \<^verbatim>\<open>function\<close> declaration or expression: a new function object with its own
  properties \<^verbatim>\<open>name\<close>, \<^verbatim>\<open>length\<close> and \<^verbatim>\<open>prototype\<close>, and the new prototype object,
  whose \<^verbatim>\<open>constructor\<close> is the function. The prototype object takes the address after
  the function's.
\<close>

definition new_function :: "callable \<Rightarrow> string \<Rightarrow> int \<Rightarrow> world \<Rightarrow> jsval \<times> world" where
  "new_function c name arity w =
     (case alloc \<lparr>props = [''name'' \<mapsto> Str name, ''length'' \<mapsto> Num arity,
                           ''prototype'' \<mapsto> Ref (Suc (length (heap w)))],
                  frozen = False, kind = Function c\<rparr> w of
        (a, w1) \<Rightarrow>
          (case alloc \<lparr>props = [''constructor'' \<mapsto> Ref a], frozen = False, kind = Plain\<rparr> w1 of
             (p, w2) \<Rightarrow> (Ref a, w2)))"

text \<open>
  An arrow function of application code: a function object with \<^verbatim>\<open>name\<close> and
  \<^verbatim>\<open>length\<close> and no prototype object.
\<close>

definition new_arrow ::
  "string \<Rightarrow> int \<Rightarrow> (jsval list \<Rightarrow> prog) \<Rightarrow> world \<Rightarrow> jsval \<times> world" where
  "new_arrow name arity body w =
     (case alloc \<lparr>props = [''name'' \<mapsto> Str name, ''length'' \<mapsto> Num arity],
                  frozen = False, kind = Function (User body)\<rparr> w of
        (a, w1) \<Rightarrow> (Ref a, w1))"

definition arg :: "jsval list \<Rightarrow> nat \<Rightarrow> jsval" where
  "arg args i = (if i < length args then args ! i else Undefined)"

subsection \<open>The platform: \<^verbatim>\<open>customElements\<close> and \<^verbatim>\<open>document\<close>\<close>

definition lower_alpha :: "char set" where
  "lower_alpha = set ''abcdefghijklmnopqrstuvwxyz''"

definition upper_alpha :: "char set" where
  "upper_alpha = set ''ABCDEFGHIJKLMNOPQRSTUVWXYZ''"

definition name_char :: "char set" where
  "name_char = lower_alpha \<union> upper_alpha \<union> set ''0123456789-._''"

definition reserved_names :: "string set" where
  "reserved_names = {''annotation-xml'', ''color-profile'', ''font-face'', ''font-face-src'',
     ''font-face-uri'', ''font-face-format'', ''font-face-name'', ''missing-glyph''}"

text \<open>
  Names, restricted to ASCII: \<^verbatim>\<open>document.createElement\<close> wants a letter followed by name
  characters; a custom element name moreover starts with a lower-case letter, contains a
  hyphen and no upper-case letter, and is not one of the reserved names.
\<close>

definition valid_element_name :: "string \<Rightarrow> bool" where
  "valid_element_name t =
     (case t of [] \<Rightarrow> False
      | c # cs \<Rightarrow> c \<in> lower_alpha \<union> upper_alpha \<and> set cs \<subseteq> name_char)"

definition valid_custom_element_name :: "string \<Rightarrow> bool" where
  "valid_custom_element_name t =
     (valid_element_name t \<and> hd t \<in> lower_alpha \<and> CHR ''-'' \<in> set t
      \<and> set t \<inter> upper_alpha = {} \<and> t \<notin> reserved_names)"

definition customElements_get :: "world \<Rightarrow> string \<Rightarrow> element_definition option" where
  "customElements_get w tag = registry w tag"

text \<open>
  \<^verbatim>\<open>customElements.define\<close> rejects an invalid name and a name that is already
  registered; a registration is never removed.
\<close>

definition customElements_define :: "string \<Rightarrow> element_definition \<Rightarrow> world \<Rightarrow> completion \<times> world"
  where
  "customElements_define tag d w =
     (if \<not> valid_custom_element_name tag then (Abrupt SyntaxError, w)
      else if registry w tag \<noteq> None then (Abrupt NotSupportedError, w)
      else (Normal Undefined,
            w\<lparr>registry := (registry w)(tag \<mapsto> d), trace := trace w @ [Defined tag]\<rparr>))"

text \<open>
  \<^verbatim>\<open>document.createElement(tag)\<close>: a new element, attached to no document. (An HTML
  document lower-cases the name; the names that reach \<^verbatim>\<open>make_element\<close> are valid custom
  element names, which have no upper-case letter.)
\<close>

definition createElement :: "string \<Rightarrow> world \<Rightarrow> error + addr \<times> world" where
  "createElement tag w =
     (if valid_element_name tag
      then Inr (alloc \<lparr>props = Map.empty, frozen = False, kind = Element tag\<rparr> w)
      else Inl InvalidCharacterError)"

subsection \<open>The module's WeakMap\<close>

text \<open>
  \<^verbatim>\<open>instances.get(key)\<close> is \<^verbatim>\<open>undefined\<close> for a key without an entry, and
  also for a key whose entry holds \<^verbatim>\<open>undefined\<close>.
\<close>

definition instances_get :: "world \<Rightarrow> jsval \<Rightarrow> jsval" where
  "instances_get w key =
     (case key of
        Ref a \<Rightarrow> (case instances w a of Some v \<Rightarrow> v | None \<Rightarrow> Undefined)
      | _ \<Rightarrow> Undefined)"

definition instances_set :: "addr \<Rightarrow> jsval \<Rightarrow> world \<Rightarrow> world" where
  "instances_set element v w = w\<lparr>instances := (instances w)(element \<mapsto> v)\<rparr>"

section \<open>The module\<close>

subsection \<open>The lifecycle callbacks of the registered class\<close>

definition connectedCallback :: "callfn \<Rightarrow> jsval \<Rightarrow> world \<Rightarrow> (completion \<times> world) option"
  where
  "connectedCallback callf this w =
     (let connect = optional_get w (instances_get w this) ''connect''
      in if typeof_function w connect then callf connect [] w
         else Some (Normal Undefined, w))"

definition disconnectedCallback :: "callfn \<Rightarrow> jsval \<Rightarrow> world \<Rightarrow> (completion \<times> world) option"
  where
  "disconnectedCallback callf this w =
     (let disconnect = optional_get w (instances_get w this) ''disconnect''
      in if typeof_function w disconnect then callf disconnect [] w
         else Some (Normal Undefined, w))"

subsection \<open>\<^verbatim>\<open>ui\<close> and \<^verbatim>\<open>make_element\<close>\<close>

definition ui :: "string \<Rightarrow> jsval \<Rightarrow> world \<Rightarrow> completion \<times> world" where
  "ui tag create w =
     (case (if customElements_get w tag = None then customElements_define tag UiClass w
            else (Normal Undefined, w)) of
        (Abrupt e, w1) \<Rightarrow> (Abrupt e, w1)
      | (Normal _, w1) \<Rightarrow>
          (case new_function (MakeElement tag create) ''make_element'' 1 w1 of
             (f, w2) \<Rightarrow> (case object_freeze f w2 of (g, w3) \<Rightarrow> (Normal g, w3))))"

definition make_element ::
  "callfn \<Rightarrow> string \<Rightarrow> jsval \<Rightarrow> jsval \<Rightarrow> world \<Rightarrow> (completion \<times> world) option" where
  "make_element callf tag create params w =
     (case createElement tag w of
        Inl e \<Rightarrow> Some (Abrupt e, w)
      | Inr (element, w1) \<Rightarrow>
          (case callf create [Ref element, params]
                  (w1\<lparr>trace := trace w1 @ [Init element create params]\<rparr>) of
             None \<Rightarrow> None
           | Some (Abrupt e, w2) \<Rightarrow> Some (Abrupt e, w2)
           | Some (Normal handle, w2) \<Rightarrow>
               Some (Normal (Ref element), instances_set element handle w2)))"

text \<open>
  Evaluating the module: \<^verbatim>\<open>let instances = new WeakMap()\<close>, the declaration of
  \<^verbatim>\<open>ui\<close>, and \<^verbatim>\<open>export default Object.freeze(ui)\<close>.
\<close>

definition module_init :: "world \<Rightarrow> jsval \<times> world" where
  "module_init w =
     (case new_function UiFn ''ui'' 2 (w\<lparr>instances := Map.empty\<rparr>) of
        (f, w1) \<Rightarrow> object_freeze f w1)"

section \<open>Running application code\<close>

text \<open>
  The platform runs a lifecycle callback when an element enters or leaves the document.
  An exception thrown by the callback is reported, not passed to the code that moved the
  element. The callbacks of the class of this module read \<^verbatim>\<open>this\<close>; a callback of
  another party's class receives the element as its argument. The document is flat: an
  element is in it or not. The upgrade of elements that are already in the document when
  their tag is registered is not modelled (for the class of this module it would find no
  entry in the map and do nothing).
\<close>

definition report :: "(completion \<times> world) option \<Rightarrow> world option" where
  "report r =
     (case r of
        None \<Rightarrow> None
      | Some (Normal _, w) \<Rightarrow> Some w
      | Some (Abrupt e, w) \<Rightarrow> Some (w\<lparr>reported := reported w @ [e]\<rparr>))"

definition connected_reaction :: "callfn \<Rightarrow> addr \<Rightarrow> world \<Rightarrow> world option" where
  "connected_reaction callf e w =
     (case tag_of w e of
        None \<Rightarrow> Some w
      | Some tag \<Rightarrow>
          (case registry w tag of
             None \<Rightarrow> Some w
           | Some UiClass \<Rightarrow> report (connectedCallback callf (Ref e) w)
           | Some (Foreign cc dc) \<Rightarrow>
               if typeof_function w cc then report (callf cc [Ref e] w) else Some w))"

definition disconnected_reaction :: "callfn \<Rightarrow> addr \<Rightarrow> world \<Rightarrow> world option" where
  "disconnected_reaction callf e w =
     (case tag_of w e of
        None \<Rightarrow> Some w
      | Some tag \<Rightarrow>
          (case registry w tag of
             None \<Rightarrow> Some w
           | Some UiClass \<Rightarrow> report (disconnectedCallback callf (Ref e) w)
           | Some (Foreign cc dc) \<Rightarrow>
               if typeof_function w dc then report (callf dc [Ref e] w) else Some w))"

text \<open>
  \<^verbatim>\<open>document.body.append(x)\<close>: an element that is already in the document is moved, which
  the platform signals as a removal followed by an insertion.
\<close>

definition append_node :: "callfn \<Rightarrow> jsval \<Rightarrow> world \<Rightarrow> world option" where
  "append_node callf x w =
     (case x of
        Ref e \<Rightarrow>
          if tag_of w e = None then Some w
          else if e \<in> attached w then
            (case disconnected_reaction callf e w of
               None \<Rightarrow> None
             | Some w1 \<Rightarrow> connected_reaction callf e w1)
          else connected_reaction callf e (w\<lparr>attached := insert e (attached w)\<rparr>)
      | _ \<Rightarrow> Some w)"

text \<open>\<^verbatim>\<open>x.remove()\<close>\<close>

definition remove_node :: "callfn \<Rightarrow> jsval \<Rightarrow> world \<Rightarrow> world option" where
  "remove_node callf x w =
     (case x of
        Ref e \<Rightarrow>
          if tag_of w e \<noteq> None \<and> e \<in> attached w
          then disconnected_reaction callf e (w\<lparr>attached := attached w - {e}\<rparr>)
          else Some w
      | _ \<Rightarrow> Some w)"

text \<open>
  Registration of a class by other code. The platform reads the two lifecycle callbacks
  off the class when it is defined and rejects one that is neither absent nor callable.
\<close>

definition foreign_define :: "string \<Rightarrow> jsval \<Rightarrow> jsval \<Rightarrow> world \<Rightarrow> completion \<times> world" where
  "foreign_define tag cc dc w =
     (if \<not> valid_custom_element_name tag then (Abrupt SyntaxError, w)
      else if registry w tag \<noteq> None then (Abrupt NotSupportedError, w)
      else if (cc \<noteq> Undefined \<and> \<not> typeof_function w cc)
            \<or> (dc \<noteq> Undefined \<and> \<not> typeof_function w dc) then (Abrupt TypeError, w)
      else customElements_define tag (Foreign cc dc) w)"

primrec run :: "callfn \<Rightarrow> prog \<Rightarrow> world \<Rightarrow> (completion \<times> world) option" where
  "run callf (Return v) w = Some (Normal v, w)"
| "run callf (Raise e) w = Some (Abrupt e, w)"
| "run callf (Try p k) w =
     (case run callf p w of
        None \<Rightarrow> None
      | Some (c, w1) \<Rightarrow> run callf (k c) w1)"
| "run callf (Call f args k) w =
     (case callf f args w of
        None \<Rightarrow> None
      | Some (Abrupt e, w1) \<Rightarrow> Some (Abrupt e, w1)
      | Some (Normal v, w1) \<Rightarrow> run callf (k v) w1)"
| "run callf (NewObject fs k) w =
     (case alloc \<lparr>props = map_of (rev fs), frozen = False, kind = Plain\<rparr> w of
        (a, w1) \<Rightarrow> run callf (k (Ref a)) w1)"
| "run callf (NewFunction name arity body k) w =
     (case new_arrow name arity body w of
        (f, w1) \<Rightarrow> run callf (k f) w1)"
| "run callf (GetProp v name k) w =
     (if v = Undefined \<or> v = Null then Some (Abrupt TypeError, w)
      else run callf (k (get_prop w v name)) w)"
| "run callf (SetProp v name x p) w =
     (case set_prop v name x w of
        (Abrupt e, w1) \<Rightarrow> Some (Abrupt e, w1)
      | (Normal _, w1) \<Rightarrow> run callf p w1)"
| "run callf (DeleteProp v name p) w =
     (case delete_prop v name w of
        (Abrupt e, w1) \<Rightarrow> Some (Abrupt e, w1)
      | (Normal _, w1) \<Rightarrow> run callf p w1)"
| "run callf (CreateElement tag k) w =
     (case createElement tag w of
        Inl e \<Rightarrow> Some (Abrupt e, w)
      | Inr (a, w1) \<Rightarrow> run callf (k (Ref a)) w1)"
| "run callf (Append x p) w =
     (case append_node callf x w of
        None \<Rightarrow> None
      | Some w1 \<Rightarrow> run callf p w1)"
| "run callf (Remove x p) w =
     (case remove_node callf x w of
        None \<Rightarrow> None
      | Some w1 \<Rightarrow> run callf p w1)"
| "run callf (IsConnected x k) w =
     run callf (k (case x of Ref e \<Rightarrow> e \<in> attached w | _ \<Rightarrow> False)) w"
| "run callf (Define tag cc dc p) w =
     (case foreign_define tag cc dc w of
        (Abrupt e, w1) \<Rightarrow> Some (Abrupt e, w1)
      | (Normal _, w1) \<Rightarrow> run callf p w1)"

text \<open>
  Calling a function value. A call of something that is not a function throws. The
  argument \<open>n\<close> bounds the depth of nested calls, since application code may recurse for
  ever: \<open>None\<close> says that the bound was reached. The platform converts the tag that
  \<^verbatim>\<open>ui\<close> passes on to a string. The model covers tags that are strings; for any other
  value it lets the registration fail, as the platform does for a primitive and for an
  object without a conversion of its own (neither converts to a valid name).
\<close>

primrec call :: "nat \<Rightarrow> callfn" where
  "call 0 = (\<lambda>f args w.
     (case callable_of w f of
        None \<Rightarrow> Some (Abrupt TypeError, w)
      | Some c \<Rightarrow> None))"
| "call (Suc n) = (\<lambda>f args w.
     (case callable_of w f of
        None \<Rightarrow> Some (Abrupt TypeError, w)
      | Some UiFn \<Rightarrow>
          (case arg args 0 of
             Str tag \<Rightarrow> Some (ui tag (arg args 1) w)
           | _ \<Rightarrow> Some (Abrupt SyntaxError, w))
      | Some (MakeElement tag create) \<Rightarrow> make_element (call n) tag create (arg args 0) w
      | Some (User body) \<Rightarrow> run (call n) (body args) w))"

section \<open>Properties of executions\<close>

text \<open>
  The initializer invocations recorded for one element, and the number of times a tag
  was registered with the platform.
\<close>

definition inits :: "addr \<Rightarrow> event list \<Rightarrow> event list" where
  "inits e tr = filter (\<lambda>ev. case ev of Init a _ _ \<Rightarrow> a = e | _ \<Rightarrow> False) tr"

definition registrations :: "string \<Rightarrow> event list \<Rightarrow> nat" where
  "registrations t tr = length (filter (\<lambda>ev. ev = Defined t) tr)"

text \<open>
  A well-formed world mentions only allocated objects: every key of the map, every
  attached element and every element of an initializer event is on the heap, and the trace
  holds at most one registration per tag, none for a tag that is not registered.
\<close>

definition wf :: "world \<Rightarrow> bool" where
  "wf w =
     ((\<forall>a. instances w a \<noteq> None \<longrightarrow> a < length (heap w))
      \<and> (\<forall>a \<in> attached w. a < length (heap w))
      \<and> (\<forall>a. inits a (trace w) \<noteq> [] \<longrightarrow> a < length (heap w))
      \<and> (\<forall>t. registrations t (trace w) \<le> 1)
      \<and> (\<forall>t. registry w t = None \<longrightarrow> registrations t (trace w) = 0))"

text \<open>The world before anything is loaded.\<close>

definition empty_world :: world where
  "empty_world = \<lparr>heap = [], registry = Map.empty, attached = {}, instances = Map.empty,
     reported = [], trace = []\<rparr>"

text \<open>
  What every execution preserves. From \<open>w\<close> to \<open>w'\<close> the heap only grows; an object
  keeps its kind, and a frozen object everything; a registered tag keeps its definition;
  the map entry and the initializer events of an object of \<open>w\<close> do not change; a tag is
  registered once more exactly when it was unregistered in \<open>w\<close> and is registered in
  \<open>w'\<close>; and well-formedness is kept.
\<close>

definition evolves :: "world \<Rightarrow> world \<Rightarrow> bool" where
  "evolves w w' =
     (length (heap w) \<le> length (heap w')
      \<and> (\<forall>a < length (heap w). kind (heap w' ! a) = kind (heap w ! a))
      \<and> (\<forall>a < length (heap w). frozen (heap w ! a) \<longrightarrow> heap w' ! a = heap w ! a)
      \<and> (\<forall>t. registry w t \<noteq> None \<longrightarrow> registry w' t = registry w t)
      \<and> (\<forall>a < length (heap w). instances w' a = instances w a)
      \<and> (\<forall>a < length (heap w). inits a (trace w') = inits a (trace w))
      \<and> (\<forall>t. registrations t (trace w') =
               registrations t (trace w) + (if registry w t = None \<and> registry w' t \<noteq> None then 1 else 0))
      \<and> (wf w \<longrightarrow> wf w'))"

text \<open>A call function is sound when each of its results evolves from its start.\<close>

definition sound :: "callfn \<Rightarrow> bool" where
  "sound callf = (\<forall>f args w c w'. callf f args w = Some (c, w') \<longrightarrow> evolves w w')"

section \<open>Example pages\<close>

text \<open>
  The objects that the module and a page put on the heap. A function of the module is
  described with its own address, which its prototype object follows.
\<close>

definition ui_object :: "addr \<Rightarrow> obj" where
  "ui_object a =
     \<lparr>props = [''name'' \<mapsto> Str ''ui'', ''length'' \<mapsto> Num 2, ''prototype'' \<mapsto> Ref (Suc a)],
      frozen = True, kind = Function UiFn\<rparr>"

definition make_object :: "string \<Rightarrow> jsval \<Rightarrow> addr \<Rightarrow> obj" where
  "make_object tag create a =
     \<lparr>props = [''name'' \<mapsto> Str ''make_element'', ''length'' \<mapsto> Num 1,
               ''prototype'' \<mapsto> Ref (Suc a)],
      frozen = True, kind = Function (MakeElement tag create)\<rparr>"

definition prototype_object :: "addr \<Rightarrow> obj" where
  "prototype_object a = \<lparr>props = [''constructor'' \<mapsto> Ref a], frozen = False, kind = Plain\<rparr>"

definition function_object :: "string \<Rightarrow> int \<Rightarrow> (jsval list \<Rightarrow> prog) \<Rightarrow> obj" where
  "function_object name arity body =
     \<lparr>props = [''name'' \<mapsto> Str name, ''length'' \<mapsto> Num arity],
      frozen = False, kind = Function (User body)\<rparr>"

definition element_object :: "string \<Rightarrow> obj" where
  "element_object tag = \<lparr>props = Map.empty, frozen = False, kind = Element tag\<rparr>"

text \<open>The world once the module has been evaluated: \<^verbatim>\<open>ui\<close> is the object at address 0.\<close>

definition loaded :: world where
  "loaded = \<lparr>heap = [ui_object 0, prototype_object 0], registry = Map.empty, attached = {},
     instances = Map.empty, reported = [], trace = []\<rparr>"

text \<open>
  A page in the manner of the README: the initializer returns a handle whose
  \<^verbatim>\<open>connect\<close> counts, on the element, how often it ran.
  \<^verbatim>\<open>
  const counter = ui("x-counter", (element, params) => ({
      connect: () => {
          element.connected = (
              typeof element.connected === "number"
              ? element.connected + 1
              : 1
          );
      }
  }));
  const el = counter(undefined);
  \<close>
\<close>

definition count_connect :: "jsval \<Rightarrow> jsval list \<Rightarrow> prog" where
  "count_connect element args =
     GetProp element ''connected''
       (\<lambda>v. SetProp element ''connected'' (case v of Num k \<Rightarrow> Num (k + 1) | _ \<Rightarrow> Num 1)
          (Return Undefined))"

definition counter_create :: "jsval list \<Rightarrow> prog" where
  "counter_create args =
     NewFunction ''connect'' 0 (count_connect (arg args 0))
       (\<lambda>connect. NewObject [(''connect'', connect)] Return)"

definition counter_page :: prog where
  "counter_page =
     NewFunction [] 2 counter_create
       (\<lambda>create. Call (Ref 0) [Str ''x-counter'', create]
          (\<lambda>counter. Call counter [Undefined] Return))"

definition counter_handle :: obj where
  "counter_handle = \<lparr>props = [''connect'' \<mapsto> Ref 6], frozen = False, kind = Plain\<rparr>"

definition counter_defined :: world where
  "counter_defined =
     \<lparr>heap = [ui_object 0, prototype_object 0, function_object [] 2 counter_create,
              make_object ''x-counter'' (Ref 2) 3, prototype_object 3],
      registry = [''x-counter'' \<mapsto> UiClass], attached = {}, instances = Map.empty,
      reported = [], trace = [Defined ''x-counter'']\<rparr>"

definition counter_made :: world where
  "counter_made =
     \<lparr>heap = [ui_object 0, prototype_object 0, function_object [] 2 counter_create,
              make_object ''x-counter'' (Ref 2) 3, prototype_object 3,
              element_object ''x-counter'',
              function_object ''connect'' 0 (count_connect (Ref 5)), counter_handle],
      registry = [''x-counter'' \<mapsto> UiClass], attached = {}, instances = [5 \<mapsto> Ref 7],
      reported = [], trace = [Defined ''x-counter'', Init 5 (Ref 2) Undefined]\<rparr>"


text \<open>
  A handle whose fields are not functions.
  \<^verbatim>\<open>
  const label = ui("x-label", (element, params) => ({connect: "soon", disconnect: 3}));
  const el = label(undefined);
  \<close>
\<close>

definition label_create :: "jsval list \<Rightarrow> prog" where
  "label_create args = NewObject [(''connect'', Str ''soon''), (''disconnect'', Num 3)] Return"

definition label_page :: prog where
  "label_page =
     NewFunction [] 2 label_create
       (\<lambda>create. Call (Ref 0) [Str ''x-label'', create]
          (\<lambda>label. Call label [Undefined] Return))"

definition label_handle :: obj where
  "label_handle = \<lparr>props = [''connect'' \<mapsto> Str ''soon'', ''disconnect'' \<mapsto> Num 3],
     frozen = False, kind = Plain\<rparr>"

definition label_made :: world where
  "label_made =
     \<lparr>heap = [ui_object 0, prototype_object 0, function_object [] 2 label_create,
              make_object ''x-label'' (Ref 2) 3, prototype_object 3,
              element_object ''x-label'', label_handle],
      registry = [''x-label'' \<mapsto> UiClass], attached = {}, instances = [5 \<mapsto> Ref 6],
      reported = [], trace = [Defined ''x-label'', Init 5 (Ref 2) Undefined]\<rparr>"

text \<open>
  An initializer that returns \<^verbatim>\<open>null\<close> or, when it is given one, a string.
  \<^verbatim>\<open>
  const quiet = ui("x-quiet", (element, params) => params ?? null);
  const el = quiet(undefined);
  const el2 = quiet("done");
  \<close>
\<close>

definition quiet_create :: "jsval list \<Rightarrow> prog" where
  "quiet_create args = Return (case arg args 1 of Undefined \<Rightarrow> Null | v \<Rightarrow> v)"

definition quiet_page :: prog where
  "quiet_page =
     NewFunction [] 2 quiet_create
       (\<lambda>create. Call (Ref 0) [Str ''x-quiet'', create]
          (\<lambda>quiet. Call quiet [Undefined] (\<lambda>el. Call quiet [Str ''done''] Return)))"

definition quiet_made :: world where
  "quiet_made =
     \<lparr>heap = [ui_object 0, prototype_object 0, function_object [] 2 quiet_create,
              make_object ''x-quiet'' (Ref 2) 3, prototype_object 3,
              element_object ''x-quiet'', element_object ''x-quiet''],
      registry = [''x-quiet'' \<mapsto> UiClass], attached = {},
      instances = [5 \<mapsto> Null, 6 \<mapsto> Str ''done''],
      reported = [],
      trace = [Defined ''x-quiet'', Init 5 (Ref 2) Undefined, Init 6 (Ref 2) (Str ''done'')]\<rparr>"

text \<open>
  An initializer that inserts the element it is given into the document.
  \<^verbatim>\<open>
  const eager = ui("x-eager", (element, params) => {
      document.body.append(element);
  });
  const el = eager(undefined);
  \<close>
\<close>

definition eager_create :: "jsval list \<Rightarrow> prog" where
  "eager_create args = Append (arg args 0) (Return Undefined)"

definition eager_defined :: world where
  "eager_defined =
     \<lparr>heap = [ui_object 0, prototype_object 0, function_object [] 2 eager_create,
              make_object ''x-eager'' (Ref 2) 3, prototype_object 3],
      registry = [''x-eager'' \<mapsto> UiClass], attached = {}, instances = Map.empty,
      reported = [], trace = [Defined ''x-eager'']\<rparr>"

definition eager_made :: world where
  "eager_made =
     \<lparr>heap = [ui_object 0, prototype_object 0, function_object [] 2 eager_create,
              make_object ''x-eager'' (Ref 2) 3, prototype_object 3,
              element_object ''x-eager''],
      registry = [''x-eager'' \<mapsto> UiClass], attached = {5}, instances = [5 \<mapsto> Undefined],
      reported = [], trace = [Defined ''x-eager'', Init 5 (Ref 2) Undefined]\<rparr>"

text \<open>
  An initializer that makes an element of another tag and then throws.
  \<^verbatim>\<open>
  const child = ui("x-child", (element, params) => undefined);
  const parent = ui("x-parent", (element, params) => {
      child(undefined);
      throw "boom";
  });
  parent(undefined);
  \<close>
\<close>

definition child_create :: "jsval list \<Rightarrow> prog" where
  "child_create args = Return Undefined"

definition parent_create :: "jsval list \<Rightarrow> prog" where
  "parent_create args = Call (Ref 3) [Undefined] (\<lambda>child. Raise (Thrown (Str ''boom'')))"

definition family_defined :: world where
  "family_defined =
     \<lparr>heap = [ui_object 0, prototype_object 0, function_object [] 2 child_create,
              make_object ''x-child'' (Ref 2) 3, prototype_object 3,
              function_object [] 2 parent_create,
              make_object ''x-parent'' (Ref 5) 6, prototype_object 6],
      registry = [''x-child'' \<mapsto> UiClass, ''x-parent'' \<mapsto> UiClass], attached = {},
      instances = Map.empty, reported = [],
      trace = [Defined ''x-child'', Defined ''x-parent'']\<rparr>"

definition family_failed :: world where
  "family_failed =
     \<lparr>heap = [ui_object 0, prototype_object 0, function_object [] 2 child_create,
              make_object ''x-child'' (Ref 2) 3, prototype_object 3,
              function_object [] 2 parent_create,
              make_object ''x-parent'' (Ref 5) 6, prototype_object 6,
              element_object ''x-parent'', element_object ''x-child''],
      registry = [''x-child'' \<mapsto> UiClass, ''x-parent'' \<mapsto> UiClass], attached = {},
      instances = [9 \<mapsto> Undefined], reported = [],
      trace = [Defined ''x-child'', Defined ''x-parent'', Init 8 (Ref 5) Undefined,
               Init 9 (Ref 2) Undefined]\<rparr>"

text \<open>
  A page on which other code has registered the tag before \<^verbatim>\<open>ui\<close> is called with it.
  \<^verbatim>\<open>
  const create = (element, params) => ({connect: () => { ... }});   // as on the counter page
  customElements.define("x-widget", class extends HTMLElement {});
  const widget = ui("x-widget", create);
  const el = widget(undefined);
  document.body.append(el);
  \<close>
\<close>

definition widget_registered :: world where
  "widget_registered =
     \<lparr>heap = [ui_object 0, prototype_object 0, function_object ''create'' 2 counter_create],
      registry = [''x-widget'' \<mapsto> Foreign Undefined Undefined], attached = {},
      instances = Map.empty, reported = [], trace = [Defined ''x-widget'']\<rparr>"

definition widget_defined :: world where
  "widget_defined =
     \<lparr>heap = [ui_object 0, prototype_object 0, function_object ''create'' 2 counter_create,
              make_object ''x-widget'' (Ref 2) 3, prototype_object 3],
      registry = [''x-widget'' \<mapsto> Foreign Undefined Undefined], attached = {},
      instances = Map.empty, reported = [], trace = [Defined ''x-widget'']\<rparr>"

definition widget_made :: world where
  "widget_made =
     \<lparr>heap = [ui_object 0, prototype_object 0, function_object ''create'' 2 counter_create,
              make_object ''x-widget'' (Ref 2) 3, prototype_object 3,
              element_object ''x-widget'',
              function_object ''connect'' 0 (count_connect (Ref 5)), counter_handle],
      registry = [''x-widget'' \<mapsto> Foreign Undefined Undefined], attached = {},
      instances = [5 \<mapsto> Ref 7], reported = [],
      trace = [Defined ''x-widget'', Init 5 (Ref 2) Undefined]\<rparr>"

text \<open>
  A page that calls \<^verbatim>\<open>ui\<close> twice with one tag and two initializers, and makes an
  element with the second function.
  \<^verbatim>\<open>
  const first = (element, params) => ({connect: () => { ... }});    // as on the counter page
  const second = (element, params) => ({connect: "soon", disconnect: 3});
  const counter = ui("x-counter", first);
  const label = ui("x-counter", second);
  const el = label(undefined);
  \<close>
\<close>

definition twice_start :: world where
  "twice_start =
     \<lparr>heap = [ui_object 0, prototype_object 0, function_object ''first'' 2 counter_create,
              function_object ''second'' 2 label_create],
      registry = Map.empty, attached = {}, instances = Map.empty, reported = [], trace = []\<rparr>"

definition twice_once :: world where
  "twice_once =
     \<lparr>heap = [ui_object 0, prototype_object 0, function_object ''first'' 2 counter_create,
              function_object ''second'' 2 label_create,
              make_object ''x-counter'' (Ref 2) 4, prototype_object 4],
      registry = [''x-counter'' \<mapsto> UiClass], attached = {}, instances = Map.empty,
      reported = [], trace = [Defined ''x-counter'']\<rparr>"

definition twice_defined :: world where
  "twice_defined =
     \<lparr>heap = [ui_object 0, prototype_object 0, function_object ''first'' 2 counter_create,
              function_object ''second'' 2 label_create,
              make_object ''x-counter'' (Ref 2) 4, prototype_object 4,
              make_object ''x-counter'' (Ref 3) 6, prototype_object 6],
      registry = [''x-counter'' \<mapsto> UiClass], attached = {}, instances = Map.empty,
      reported = [], trace = [Defined ''x-counter'']\<rparr>"

definition twice_made :: world where
  "twice_made =
     \<lparr>heap = [ui_object 0, prototype_object 0, function_object ''first'' 2 counter_create,
              function_object ''second'' 2 label_create,
              make_object ''x-counter'' (Ref 2) 4, prototype_object 4,
              make_object ''x-counter'' (Ref 3) 6, prototype_object 6,
              element_object ''x-counter'', label_handle],
      registry = [''x-counter'' \<mapsto> UiClass], attached = {}, instances = [8 \<mapsto> Ref 9],
      reported = [], trace = [Defined ''x-counter'', Init 8 (Ref 3) Undefined]\<rparr>"

text \<open>
  The scripts that lead from the loaded module to the worlds above, before any element
  is made.
\<close>

definition eager_setup :: prog where
  "eager_setup =
     NewFunction [] 2 eager_create (\<lambda>create. Call (Ref 0) [Str ''x-eager'', create] Return)"

definition family_setup :: prog where
  "family_setup =
     NewFunction [] 2 child_create
       (\<lambda>create. Call (Ref 0) [Str ''x-child'', create]
          (\<lambda>child. NewFunction [] 2 parent_create
             (\<lambda>create. Call (Ref 0) [Str ''x-parent'', create] Return)))"

definition widget_setup :: prog where
  "widget_setup =
     NewFunction ''create'' 2 counter_create
       (\<lambda>create. Define ''x-widget'' Undefined Undefined (Return create))"

definition twice_setup :: prog where
  "twice_setup =
     NewFunction ''first'' 2 counter_create
       (\<lambda>create. NewFunction ''second'' 2 label_create Return)"

section \<open>Every execution evolves the world\<close>

lemma evolves_refl: "evolves w w"
  by (auto simp: evolves_def)

lemma wf_heap_grow:
  "wf w \<Longrightarrow> length (heap w) \<le> length h \<Longrightarrow> wf (w\<lparr>heap := h\<rparr>)"
  unfolding wf_def by (simp; meson less_le_trans)

lemma wf_empty_world: "wf empty_world"
  by (simp add: wf_def empty_world_def inits_def registrations_def)

lemma evolves_trans:
  assumes "evolves w1 w2" and "evolves w2 w3"
  shows "evolves w1 w3"
  unfolding evolves_def
proof (intro conjI allI impI)
  show "length (heap w1) \<le> length (heap w3)"
    using assms by (simp add: evolves_def)
next
  fix a assume "a < length (heap w1)"
  then show "kind (heap w3 ! a) = kind (heap w1 ! a)"
    using assms by (simp add: evolves_def)
next
  fix a assume "a < length (heap w1)" "frozen (heap w1 ! a)"
  then show "heap w3 ! a = heap w1 ! a"
    using assms by (simp add: evolves_def)
next
  fix t assume "registry w1 t \<noteq> None"
  then show "registry w3 t = registry w1 t"
    using assms by (simp add: evolves_def)
next
  fix a assume "a < length (heap w1)"
  then show "instances w3 a = instances w1 a"
    using assms by (simp add: evolves_def)
next
  fix a assume "a < length (heap w1)"
  then show "inits a (trace w3) = inits a (trace w1)"
    using assms by (simp add: evolves_def)
next
  fix t
  have a: "registrations t (trace w2) = registrations t (trace w1)
      + (if registry w1 t = None \<and> registry w2 t \<noteq> None then 1 else 0)"
    using assms(1) by (simp add: evolves_def)
  have b: "registrations t (trace w3) = registrations t (trace w2)
      + (if registry w2 t = None \<and> registry w3 t \<noteq> None then 1 else 0)"
    using assms(2) by (simp add: evolves_def)
  have c: "registry w1 t \<noteq> None \<longrightarrow> registry w2 t = registry w1 t"
    using assms(1) by (simp add: evolves_def)
  have d: "registry w2 t \<noteq> None \<longrightarrow> registry w3 t = registry w2 t"
    using assms(2) by (simp add: evolves_def)
  show "registrations t (trace w3) = registrations t (trace w1)
      + (if registry w1 t = None \<and> registry w3 t \<noteq> None then 1 else 0)"
    using a b c d by (cases "registry w1 t"; cases "registry w2 t"; cases "registry w3 t") auto
next
  assume "wf w1"
  then show "wf w3"
    using assms by (simp add: evolves_def)
qed

lemma evolves_alloc: "alloc ob w = (a, w1) \<Longrightarrow> evolves w w1"
  by (auto simp: alloc_def evolves_def nth_append intro: wf_heap_grow)

lemma evolves_set_prop: "set_prop v name x w = (c, w1) \<Longrightarrow> evolves w w1"
  by (auto simp: set_prop_def read_only_def lookup_def evolves_def nth_list_update
           intro: wf_heap_grow split: jsval.splits option.splits if_splits)

lemma evolves_delete_prop: "delete_prop v name w = (c, w1) \<Longrightarrow> evolves w w1"
  by (auto simp: delete_prop_def lookup_def evolves_def nth_list_update
           intro: wf_heap_grow split: jsval.splits option.splits if_splits)

lemma evolves_new_function: "new_function c name n w = (f, w1) \<Longrightarrow> evolves w w1"
  by (auto simp: new_function_def split: prod.splits dest!: evolves_alloc intro: evolves_trans)

lemma evolves_new_arrow: "new_arrow name n body w = (f, w1) \<Longrightarrow> evolves w w1"
  by (auto simp: new_arrow_def split: prod.splits dest: evolves_alloc)

lemma registrations_snoc [simp]:
  "registrations t (tr @ [ev]) = registrations t tr + (if ev = Defined t then 1 else 0)"
  by (simp add: registrations_def)

lemma inits_snoc_Defined [simp]: "inits a (tr @ [Defined t]) = inits a tr"
  by (simp add: inits_def)

lemma inits_snoc_Init [simp]:
  "inits a (tr @ [Init e c p]) = (if e = a then inits a tr @ [Init e c p] else inits a tr)"
  by (simp add: inits_def)

lemma evolves_customElements_define:
  "customElements_define tag d w = (c, w1) \<Longrightarrow> evolves w w1"
  by (auto simp: customElements_define_def evolves_def wf_def split: if_splits)

lemma evolves_foreign_define: "foreign_define tag cc dc w = (c, w1) \<Longrightarrow> evolves w w1"
  by (auto simp: foreign_define_def evolves_refl split: if_splits
           dest: evolves_customElements_define)

lemma evolves_object_freeze: "object_freeze v w = (g, w1) \<Longrightarrow> evolves w w1"
  by (auto simp: object_freeze_def lookup_def evolves_def nth_list_update
           intro: wf_heap_grow split: jsval.splits option.splits if_splits)

lemma evolves_createElement: "createElement tag w = Inr (a, w1) \<Longrightarrow> evolves w w1"
  by (auto simp: createElement_def split: if_splits dest: evolves_alloc)

lemma tag_of_allocated: "tag_of w e = Some t \<Longrightarrow> e < length (heap w)"
  by (simp add: tag_of_def lookup_def split: if_splits)

lemma evolves_attach: "e < length (heap w) \<Longrightarrow> evolves w (w\<lparr>attached := insert e (attached w)\<rparr>)"
  by (auto simp: evolves_def wf_def)

lemma evolves_detach: "evolves w (w\<lparr>attached := attached w - {e}\<rparr>)"
  by (auto simp: evolves_def wf_def)

lemma evolves_reported: "evolves w (w\<lparr>reported := r\<rparr>)"
  by (auto simp: evolves_def wf_def)

lemma soundD: "sound callf \<Longrightarrow> callf f args w = Some (c, w') \<Longrightarrow> evolves w w'"
  by (auto simp: sound_def)

lemma evolves_report:
  assumes "report r = Some w'" and "\<And>c w1. r = Some (c, w1) \<Longrightarrow> evolves w w1"
  shows "evolves w w'"
  using assms
  by (auto simp: report_def split: option.splits prod.splits completion.splits
           intro: evolves_trans [OF _ evolves_reported])

lemma evolves_connectedCallback:
  "sound callf \<Longrightarrow> connectedCallback callf this w = Some (c, w') \<Longrightarrow> evolves w w'"
  by (auto simp: connectedCallback_def Let_def evolves_refl split: if_splits dest: soundD)

lemma evolves_disconnectedCallback:
  "sound callf \<Longrightarrow> disconnectedCallback callf this w = Some (c, w') \<Longrightarrow> evolves w w'"
  by (auto simp: disconnectedCallback_def Let_def evolves_refl split: if_splits dest: soundD)

lemma evolves_connected_reaction:
  assumes "sound callf" and "connected_reaction callf e w = Some w'"
  shows "evolves w w'"
  using assms
  by (auto simp: connected_reaction_def evolves_refl
           split: option.splits element_definition.splits if_splits
           elim!: evolves_report dest: evolves_connectedCallback soundD)

lemma evolves_disconnected_reaction:
  assumes "sound callf" and "disconnected_reaction callf e w = Some w'"
  shows "evolves w w'"
  using assms
  by (auto simp: disconnected_reaction_def evolves_refl
           split: option.splits element_definition.splits if_splits
           elim!: evolves_report dest: evolves_disconnectedCallback soundD)

lemma evolves_append_node:
  assumes "sound callf" and "append_node callf x w = Some w'"
  shows "evolves w w'"
proof (cases x)
  case (Ref e)
  show ?thesis
  proof (cases "tag_of w e")
    case None
    with Ref assms show ?thesis by (simp add: append_node_def evolves_refl)
  next
    case (Some t)
    then have alloc: "e < length (heap w)" by (rule tag_of_allocated)
    show ?thesis
    proof (cases "e \<in> attached w")
      case True
      with Ref Some assms obtain w1 where
        "disconnected_reaction callf e w = Some w1" "connected_reaction callf e w1 = Some w'"
        by (auto simp: append_node_def split: option.splits)
      with assms(1) show ?thesis
        by (blast intro: evolves_trans evolves_disconnected_reaction evolves_connected_reaction)
    next
      case False
      with Ref Some assms have
        "connected_reaction callf e (w\<lparr>attached := insert e (attached w)\<rparr>) = Some w'"
        by (simp add: append_node_def)
      with assms(1) alloc show ?thesis
        by (blast intro: evolves_trans evolves_attach evolves_connected_reaction)
    qed
  qed
qed (use assms in \<open>simp_all add: append_node_def evolves_refl\<close>)

lemma evolves_remove_node:
  assumes "sound callf" and "remove_node callf x w = Some w'"
  shows "evolves w w'"
  using assms
  by (auto simp: remove_node_def evolves_refl split: jsval.splits if_splits
           intro: evolves_trans [OF evolves_detach evolves_disconnected_reaction])

lemma evolves_init_event:
  "length (heap w) \<le> e \<Longrightarrow> e < length (heap w1) \<Longrightarrow> evolves w w1
   \<Longrightarrow> evolves w (w1\<lparr>trace := trace w1 @ [Init e c p]\<rparr>)"
  by (auto simp: evolves_def wf_def)

lemma evolves_instances_set:
  "length (heap w) \<le> e \<Longrightarrow> e < length (heap w2) \<Longrightarrow> evolves w w2
   \<Longrightarrow> evolves w (instances_set e h w2)"
  by (auto simp: evolves_def wf_def instances_set_def)

lemma createElement_fresh:
  "createElement tag w = Inr (e, w1) \<Longrightarrow> e = length (heap w) \<and> length (heap w1) = Suc e"
  by (auto simp: createElement_def alloc_def split: if_splits)

lemma evolves_length: "evolves w w' \<Longrightarrow> length (heap w) \<le> length (heap w')"
  by (simp add: evolves_def)

lemma evolves_make_element:
  assumes "sound callf" and "make_element callf tag create params w = Some (c, w')"
  shows "evolves w w'"
proof (cases "createElement tag w")
  case (Inl err)
  with assms show ?thesis by (simp add: make_element_def evolves_refl)
next
  case (Inr r)
  obtain e w1 where r: "r = (e, w1)" by (cases r)
  let ?w1 = "w1\<lparr>trace := trace w1 @ [Init e create params]\<rparr>"
  from Inr r have fresh: "e = length (heap w)" "length (heap w1) = Suc e"
    using createElement_fresh by blast+
  from Inr r have "evolves w w1" by (auto dest: evolves_createElement)
  with fresh have e1: "evolves w ?w1" by (simp add: evolves_init_event)
  from assms Inr r obtain c2 w2 where call: "callf create [Ref e, params] ?w1 = Some (c2, w2)"
    by (auto simp: make_element_def split: option.splits)
  with assms(1) have e2: "evolves ?w1 w2" by (rule soundD)
  with e1 have e12: "evolves w w2" by (rule evolves_trans)
  from e2 fresh have len: "e < length (heap w2)" by (auto dest: evolves_length)
  show ?thesis
  proof (cases c2)
    case (Normal h)
    with assms Inr r call have "w' = instances_set e h w2" by (simp add: make_element_def)
    with fresh len e12 show ?thesis by (simp add: evolves_instances_set)
  next
    case (Abrupt err)
    with assms Inr r call have "w' = w2" by (simp add: make_element_def)
    with e12 show ?thesis by simp
  qed
qed

lemma evolves_ui: "ui tag create w = (c, w') \<Longrightarrow> evolves w w'"
  by (auto simp: ui_def customElements_get_def evolves_refl
           split: if_splits prod.splits completion.splits
           dest!: evolves_customElements_define evolves_new_function evolves_object_freeze
           intro: evolves_trans)

lemma evolves_run:
  assumes "sound callf"
  shows "run callf p w = Some (c, w') \<Longrightarrow> evolves w w'"
proof (induction p arbitrary: w c w')
  case (Return v)
  then show ?case by (simp add: evolves_refl)
next
  case (Raise e)
  then show ?case by (simp add: evolves_refl)
next
  case (Try p k)
  from Try.prems obtain c1 w1 where
    "run callf p w = Some (c1, w1)" "run callf (k c1) w1 = Some (c, w')"
    by (auto split: option.splits)
  then show ?case
    using Try.IH(1) Try.IH(2) [OF rangeI] by (blast intro: evolves_trans)
next
  case (Call f args k)
  from Call.prems obtain c1 w1 where r: "callf f args w = Some (c1, w1)"
    by (auto split: option.splits)
  then have e: "evolves w w1" by (rule soundD [OF assms])
  show ?case
  proof (cases c1)
    case (Normal v)
    with Call.prems r have "run callf (k v) w1 = Some (c, w')" by simp
    with e show ?thesis using Call.IH [OF rangeI] by (blast intro: evolves_trans)
  next
    case (Abrupt err)
    with Call.prems r e show ?thesis by simp
  qed
next
  case (NewObject fs k)
  obtain a w1 where r: "alloc \<lparr>props = map_of (rev fs), frozen = False, kind = Plain\<rparr> w = (a, w1)"
    by (cases "alloc \<lparr>props = map_of (rev fs), frozen = False, kind = Plain\<rparr> w")
  with NewObject.prems have "run callf (k (Ref a)) w1 = Some (c, w')" by simp
  then show ?case
    using NewObject.IH [OF rangeI] evolves_alloc [OF r] by (blast intro: evolves_trans)
next
  case (NewFunction name arity body k)
  obtain f w1 where r: "new_arrow name arity body w = (f, w1)"
    by (cases "new_arrow name arity body w")
  with NewFunction.prems have "run callf (k f) w1 = Some (c, w')" by simp
  then show ?case
    using NewFunction.IH [OF rangeI] evolves_new_arrow [OF r] by (blast intro: evolves_trans)
next
  case (GetProp v name k)
  then show ?case
    using GetProp.IH [OF rangeI] by (auto split: if_splits simp: evolves_refl)
next
  case (SetProp v name x p)
  obtain c1 w1 where r: "set_prop v name x w = (c1, w1)" by (cases "set_prop v name x w")
  then have e: "evolves w w1" by (rule evolves_set_prop)
  with SetProp.prems r SetProp.IH show ?case
    by (cases c1) (auto intro: evolves_trans)
next
  case (DeleteProp v name p)
  obtain c1 w1 where r: "delete_prop v name w = (c1, w1)" by (cases "delete_prop v name w")
  then have e: "evolves w w1" by (rule evolves_delete_prop)
  with DeleteProp.prems r DeleteProp.IH show ?case
    by (cases c1) (auto intro: evolves_trans)
next
  case (CreateElement tag k)
  show ?case
  proof (cases "createElement tag w")
    case (Inl err)
    with CreateElement.prems show ?thesis by (simp add: evolves_refl)
  next
    case (Inr r)
    obtain a w1 where r: "r = (a, w1)" by (cases r)
    with Inr have e: "evolves w w1" by (auto dest: evolves_createElement)
    from CreateElement.prems Inr r have "run callf (k (Ref a)) w1 = Some (c, w')" by simp
    with e show ?thesis using CreateElement.IH [OF rangeI] by (blast intro: evolves_trans)
  qed
next
  case (Append x p)
  from Append.prems obtain w1 where
    r: "append_node callf x w = Some w1" "run callf p w1 = Some (c, w')"
    by (auto split: option.splits)
  then show ?case
    using Append.IH evolves_append_node [OF assms] by (blast intro: evolves_trans)
next
  case (Remove x p)
  from Remove.prems obtain w1 where
    r: "remove_node callf x w = Some w1" "run callf p w1 = Some (c, w')"
    by (auto split: option.splits)
  then show ?case
    using Remove.IH evolves_remove_node [OF assms] by (blast intro: evolves_trans)
next
  case (IsConnected x k)
  then show ?case using IsConnected.IH [OF rangeI] by simp
next
  case (Define tag cc dc p)
  obtain c1 w1 where r: "foreign_define tag cc dc w = (c1, w1)"
    by (cases "foreign_define tag cc dc w")
  then have e: "evolves w w1" by (rule evolves_foreign_define)
  with Define.prems r Define.IH show ?case
    by (cases c1) (auto intro: evolves_trans)
qed

lemma sound_call: "sound (call n)"
proof (induction n)
  case 0
  show ?case
    by (auto simp: sound_def evolves_refl split: option.splits)
next
  case (Suc n)
  show ?case
    unfolding sound_def
  proof (intro allI impI)
    fix f args w c w'
    assume r: "call (Suc n) f args w = Some (c, w')"
    show "evolves w w'"
    proof (cases "callable_of w f")
      case None
      with r show ?thesis by (simp add: evolves_refl)
    next
      case (Some cl)
      show ?thesis
      proof (cases cl)
        case UiFn
        with Some r show ?thesis
          by (auto split: jsval.splits simp: evolves_refl dest: evolves_ui)
      next
        case (MakeElement tag create)
        with Some r Suc show ?thesis
          by (auto dest: evolves_make_element)
      next
        case (User body)
        with Some r Suc show ?thesis
          by (auto dest: evolves_run)
      qed
    qed
  qed
qed

lemma evolves_call: "call n f args w = Some (c, w') \<Longrightarrow> evolves w w'"
  using sound_call by (rule soundD)

lemma evolves_program: "run (call n) p w = Some (c, w') \<Longrightarrow> evolves w w'"
  using sound_call by (rule evolves_run)

section \<open>What evolution keeps\<close>

text \<open>
  The clauses of \<open>evolves\<close>, one at a time, in the form in which the proofs below use them.
\<close>

lemma evolves_registry: "evolves w w' \<Longrightarrow> registry w t \<noteq> None \<Longrightarrow> registry w' t = registry w t"
  by (simp add: evolves_def)

lemma evolves_registrations:
  "evolves w w' \<Longrightarrow> registrations t (trace w') =
     registrations t (trace w) + (if registry w t = None \<and> registry w' t \<noteq> None then 1 else 0)"
  by (simp add: evolves_def)

lemma evolves_wf: "evolves w w' \<Longrightarrow> wf w \<Longrightarrow> wf w'"
  by (simp add: evolves_def)

lemma evolves_tag_of: "evolves w w' \<Longrightarrow> tag_of w e = Some t \<Longrightarrow> tag_of w' e = Some t"
  by (auto simp: evolves_def tag_of_def lookup_def split: if_splits kind.splits)

lemma evolves_callable_of:
  "evolves w w' \<Longrightarrow> callable_of w f = Some c \<Longrightarrow> callable_of w' f = Some c"
  by (auto simp: evolves_def callable_of_def lookup_def split: jsval.splits if_splits kind.splits)

lemma evolves_instances:
  "evolves w w' \<Longrightarrow> a < length (heap w) \<Longrightarrow> instances w' a = instances w a"
  by (simp add: evolves_def)

lemma evolves_inits:
  "evolves w w' \<Longrightarrow> a < length (heap w) \<Longrightarrow> inits a (trace w') = inits a (trace w)"
  by (simp add: evolves_def)

lemma evolves_frozen:
  "evolves w w' \<Longrightarrow> lookup w a = Some ob \<Longrightarrow> frozen ob \<Longrightarrow> lookup w' a = Some ob"
  by (auto simp: evolves_def lookup_def split: if_splits)

lemma wf_fresh:
  assumes "wf w"
  shows "instances w (length (heap w)) = None" and "length (heap w) \<notin> attached w"
    and "inits (length (heap w)) (trace w) = []"
  using assms by (auto simp: wf_def)

section \<open>The results of the operations\<close>

lemma ui_returns_make:
  assumes "valid_custom_element_name t" and "ui t create w = (c, w1)"
  shows "(\<exists>mk. c = Normal mk) \<and> registry w1 t \<noteq> None"
  using assms
  by (auto simp: ui_def customElements_get_def customElements_define_def new_function_def
                 alloc_def object_freeze_def lookup_def
           split: if_splits)

lemma ui_skips_registered:
  assumes "registry w t \<noteq> None" and "ui t create w = (c, w1)"
  shows "(\<exists>mk. c = Normal mk) \<and> registry w1 = registry w \<and> trace w1 = trace w"
  using assms
  by (auto simp: ui_def customElements_get_def new_function_def
                 alloc_def object_freeze_def lookup_def
           split: if_splits)

lemma ui_Normal:
  assumes "ui t create w = (Normal mk, w1)"
  shows "mk = Ref (length (heap w))"
    and "lookup w1 (length (heap w)) = Some (make_object t create (length (heap w)))"
    and "registry w1 t \<noteq> None"
    and "registry w t = None \<Longrightarrow> registry w1 t = Some UiClass"
    and "instances w1 = instances w" and "attached w1 = attached w"
  using assms
  by (auto simp: ui_def customElements_get_def customElements_define_def new_function_def
                 alloc_def object_freeze_def lookup_def make_object_def nth_append
           split: if_splits)

lemma module_init_result:
  assumes "module_init w = (uf, w0)"
  shows "uf = Ref (length (heap w))"
    and "lookup w0 (length (heap w)) = Some (ui_object (length (heap w)))"
  using assms
  by (auto simp: module_init_def new_function_def alloc_def object_freeze_def lookup_def
        ui_object_def nth_append)

lemma createElement_Inr:
  assumes "createElement tag w = Inr (e, w1)"
  shows "e = length (heap w)" and "w1 = w\<lparr>heap := heap w @ [\<lparr>props = Map.empty, frozen = False, kind = Element tag\<rparr>]\<rparr>"
    and "tag_of w1 e = Some tag"
  using assms by (auto simp: createElement_def alloc_def tag_of_def lookup_def split: if_splits)

lemma make_element_Normal:
  assumes "make_element callf tag create params w = Some (Normal v, w')"
  obtains e w1 handle w2 where "createElement tag w = Inr (e, w1)" and "v = Ref e"
    and "callf create [Ref e, params] (w1\<lparr>trace := trace w1 @ [Init e create params]\<rparr>)
           = Some (Normal handle, w2)"
    and "w' = instances_set e handle w2"
  using assms
  by (auto simp: make_element_def split: sum.splits option.splits completion.splits)

lemma tag_of_trace_update [simp]: "tag_of (w\<lparr>trace := tr\<rparr>) a = tag_of w a"
  by (simp add: tag_of_def lookup_def)

lemma tag_of_instances_set [simp]: "tag_of (instances_set e h w) a = tag_of w a"
  by (simp add: tag_of_def lookup_def instances_set_def)

lemma frozen_rejects_writes:
  assumes "lookup w a = Some ob" and "frozen ob"
  shows "set_prop (Ref a) name x w
           = (if name = ''__proto__'' \<and> \<not> object_or_null x then Normal x
              else Abrupt TypeError, w)"
    and "delete_prop (Ref a) name w
           = (if props ob name = None then Normal (Bool True) else Abrupt TypeError, w)"
  using assms by (simp_all add: set_prop_def read_only_def delete_prop_def)

section \<open>The example pages, evaluated\<close>

text \<open>
  Each world in which an example starts is the result of running a script in the world
  that evaluating the module leaves.
\<close>

lemmas world_defs = ui_object_def make_object_def prototype_object_def function_object_def
  element_object_def

lemmas heap_simps = lookup_def alloc_def callable_of_def typeof_function_def tag_of_def
  get_prop_def optional_get_def set_prop_def delete_prop_def object_or_null_def read_only_def
  object_freeze_def new_function_def new_arrow_def arg_def

lemmas platform_simps = customElements_get_def customElements_define_def createElement_def
  instances_get_def instances_set_def report_def foreign_define_def

lemmas module_simps = connectedCallback_def disconnectedCallback_def ui_def make_element_def
  connected_reaction_def disconnected_reaction_def append_node_def remove_node_def

lemmas name_simps = valid_custom_element_name_def valid_element_name_def lower_alpha_def
  upper_alpha_def name_char_def reserved_names_def

lemma module_init_empty: "module_init empty_world = (Ref 0, loaded)"
  by (simp add: module_init_def empty_world_def loaded_def world_defs heap_simps)

lemma valid_x_counter: "valid_custom_element_name ''x-counter''"
  by (simp add: valid_custom_element_name_def valid_element_name_def lower_alpha_def
                upper_alpha_def name_char_def reserved_names_def)

lemma counter_page_defined:
  "call 1 (Ref 0) [Str ''x-counter'', Ref 2]
     (loaded\<lparr>heap := heap loaded @ [function_object [] 2 counter_create]\<rparr>)
   = Some (Normal (Ref 3), counter_defined)"
  by (simp add: eval_nat_numeral loaded_def counter_defined_def world_defs heap_simps
        platform_simps module_simps name_simps)

lemma counter_page_made:
  "call 2 (Ref 3) [Undefined] counter_defined = Some (Normal (Ref 5), counter_made)"
  by (simp add: eval_nat_numeral counter_defined_def counter_made_def counter_handle_def
        world_defs heap_simps platform_simps module_simps name_simps counter_create_def)

lemma counter_page_runs:
  "run (call 2) counter_page loaded = Some (Normal (Ref 5), counter_made)"
  by (simp add: eval_nat_numeral counter_page_def loaded_def counter_made_def
        counter_handle_def world_defs heap_simps platform_simps module_simps name_simps
        counter_create_def)

lemma label_page_runs:
  "run (call 2) label_page loaded = Some (Normal (Ref 5), label_made)"
  by (simp add: eval_nat_numeral label_page_def loaded_def label_made_def label_handle_def
        world_defs heap_simps platform_simps module_simps name_simps label_create_def)

lemma quiet_page_runs:
  "run (call 2) quiet_page loaded = Some (Normal (Ref 6), quiet_made)"
  by (simp add: eval_nat_numeral quiet_page_def loaded_def quiet_made_def
        world_defs heap_simps platform_simps module_simps name_simps quiet_create_def)

lemma eager_setup_runs:
  "run (call 1) eager_setup loaded = Some (Normal (Ref 3), eager_defined)"
  by (simp add: eval_nat_numeral eager_setup_def loaded_def eager_defined_def world_defs
        heap_simps platform_simps module_simps name_simps)

lemma family_setup_runs:
  "run (call 1) family_setup loaded = Some (Normal (Ref 6), family_defined)"
  by (simp add: eval_nat_numeral family_setup_def loaded_def family_defined_def world_defs
        heap_simps platform_simps module_simps name_simps)

lemma widget_setup_runs:
  "run (call 0) widget_setup loaded = Some (Normal (Ref 2), widget_registered)"
  by (simp add: eval_nat_numeral widget_setup_def loaded_def widget_registered_def world_defs
        heap_simps platform_simps name_simps)

lemma twice_setup_runs:
  "run (call 0) twice_setup loaded = Some (Normal (Ref 3), twice_start)"
  by (simp add: eval_nat_numeral twice_setup_def loaded_def twice_start_def world_defs heap_simps)

lemma wf_counter_defined: "wf counter_defined"
  by (auto simp: wf_def counter_defined_def inits_def registrations_def)

lemma wf_eager_defined: "wf eager_defined"
  by (auto simp: wf_def eager_defined_def inits_def registrations_def)

lemma wf_family_defined: "wf family_defined"
  by (auto simp: wf_def family_defined_def inits_def registrations_def)

section \<open>Registration\<close>

text \<open>
  Claim C1. For a valid tag name \<open>t\<close>, take a first call of \<^verbatim>\<open>ui\<close> with \<open>t\<close>, then
  any application code, then a second call with the same \<open>t\<close> and any initializer,
  then any application code again. Both calls return a function and neither throws; the
  second call leaves the registry and the registration trace as they were; and over the
  whole execution \<open>t\<close> is registered once if it was unregistered at the start and not at
  all otherwise, so that from a well-formed start the platform has bound \<open>t\<close> at most
  once.
\<close>

theorem ui_registers_tag_once:
  assumes valid: "valid_custom_element_name t"
    and first: "ui t create1 w = (c1, w1)"
    and between: "run (call n) p w1 = Some (c, w2)"
    and second: "ui t create2 w2 = (c2, w3)"
    and later: "run (call m) q w3 = Some (c', w4)"
  shows "(\<exists>mk1. c1 = Normal mk1) \<and> (\<exists>mk2. c2 = Normal mk2)
       \<and> registry w3 = registry w2 \<and> trace w3 = trace w2
       \<and> registrations t (trace w4) =
           registrations t (trace w) + (if registry w t = None then 1 else 0)
       \<and> (wf w \<longrightarrow> registrations t (trace w4) \<le> 1)"
proof -
  from valid first have c1: "\<exists>mk1. c1 = Normal mk1" and r1: "registry w1 t \<noteq> None"
    using ui_returns_make by blast+
  have e12: "evolves w1 w2" using between by (rule evolves_program)
  with r1 have r2: "registry w2 t \<noteq> None" by (simp add: evolves_registry)
  with second have c2: "\<exists>mk2. c2 = Normal mk2" and same: "registry w3 = registry w2"
      "trace w3 = trace w2"
    using ui_skips_registered by blast+
  have e01: "evolves w w1" using first by (rule evolves_ui)
  have e23: "evolves w2 w3" using second by (rule evolves_ui)
  have e34: "evolves w3 w4" using later by (rule evolves_program)
  have e04: "evolves w w4"
    using e01 e12 e23 e34 by (blast intro: evolves_trans)
  have e14: "evolves w1 w4"
    using e12 e23 e34 by (blast intro: evolves_trans)
  from e14 r1 have r4: "registry w4 t \<noteq> None" by (simp add: evolves_registry)
  have count: "registrations t (trace w4) =
      registrations t (trace w) + (if registry w t = None then 1 else 0)"
    using evolves_registrations [OF e04, of t] r4 by simp
  have "wf w \<longrightarrow> registrations t (trace w4) \<le> 1"
    using evolves_wf [OF e04] by (auto simp: wf_def)
  with c1 c2 same count show ?thesis by blast
qed

theorem ui_registers_tag_once_witness:
  "valid_custom_element_name ''x-counter'' \<and> wf empty_world
   \<and> fst (ui ''x-counter'' Null (snd (ui ''x-counter'' Undefined empty_world)))
       \<noteq> Abrupt NotSupportedError
   \<and> registrations ''x-counter''
       (trace (snd (ui ''x-counter'' Null (snd (ui ''x-counter'' Undefined empty_world))))) = 1"
proof -
  let ?w1 = "snd (ui ''x-counter'' Undefined empty_world)"
  let ?w3 = "snd (ui ''x-counter'' Null ?w1)"
  have first: "ui ''x-counter'' Undefined empty_world
      = (fst (ui ''x-counter'' Undefined empty_world), ?w1)" by simp
  have between: "run (call 0) (Return Undefined) ?w1 = Some (Normal Undefined, ?w1)" by simp
  have second: "ui ''x-counter'' Null ?w1 = (fst (ui ''x-counter'' Null ?w1), ?w3)" by simp
  have later: "run (call 0) (Return Undefined) ?w3 = Some (Normal Undefined, ?w3)" by simp
  have none: "registry empty_world ''x-counter'' = None" by (simp add: empty_world_def)
  have zero: "registrations ''x-counter'' (trace empty_world) = 0"
    by (simp add: empty_world_def registrations_def)
  show ?thesis
    using ui_registers_tag_once [OF valid_x_counter first between second later]
      valid_x_counter wf_empty_world none zero
    by auto
qed

section \<open>Making an element\<close>

text \<open>
  Claim C2, as stated, fails: an initializer receives the element and may insert it into
  the document, and then \<^verbatim>\<open>make_element\<close> returns an attached element. In the
  well-formed world \<open>eager_defined\<close> the function at address 3 is the
  \<^verbatim>\<open>make_element\<close> of tag \<^verbatim>\<open>x-eager\<close>; its call returns element 5, which is attached
  in the resulting world.
\<close>

theorem make_element_returns_attached_counterexample:
  "wf eager_defined
   \<and> callable_of eager_defined (Ref 3) = Some (MakeElement ''x-eager'' (Ref 2))
   \<and> call 2 (Ref 3) [Undefined] eager_defined = Some (Normal (Ref 5), eager_made)
   \<and> 5 \<in> attached eager_made"
  using wf_eager_defined
  by (simp add: eval_nat_numeral eager_defined_def eager_made_def world_defs heap_simps
        platform_simps module_simps name_simps eager_create_def)

text \<open>
  Claim C2, amended. When a call of a \<^verbatim>\<open>make_element\<close> function returns, it has created
  one new element of the requested tag, which was on no heap and in no document before; it
  has invoked the initializer exactly once, with that element and \<open>params\<close>, while the
  element was unattached; it has stored the initializer's result as the element's handle
  and returned that very element. \<^verbatim>\<open>make_element\<close> itself attaches nothing: on return
  the document holds what the initializer's run left in it.
\<close>

theorem make_element_runs_initializer_once:
  assumes wf: "wf w"
    and mk: "callable_of w mk = Some (MakeElement tag create)"
    and ret: "call (Suc n) mk [params] w = Some (Normal v, w')"
  shows "\<exists>e w1 handle w2.
           createElement tag w = Inr (e, w1) \<and> v = Ref e
         \<and> lookup w e = None \<and> tag_of w1 e = Some tag \<and> e \<notin> attached w1
         \<and> inits e (trace w1) = []
         \<and> call n create [Ref e, params] (w1\<lparr>trace := trace w1 @ [Init e create params]\<rparr>)
             = Some (Normal handle, w2)
         \<and> inits e (trace w') = [Init e create params]
         \<and> tag_of w' e = Some tag
         \<and> instances w' e = Some handle
         \<and> attached w' = attached w2"
proof -
  from mk ret have "make_element (call n) tag create (arg [params] 0) w = Some (Normal v, w')"
    by simp
  then have "make_element (call n) tag create params w = Some (Normal v, w')"
    by (simp add: arg_def)
  then obtain e w1 handle w2 where
    el: "createElement tag w = Inr (e, w1)" and v: "v = Ref e"
    and init: "call n create [Ref e, params] (w1\<lparr>trace := trace w1 @ [Init e create params]\<rparr>)
           = Some (Normal handle, w2)"
    and w': "w' = instances_set e handle w2"
    by (rule make_element_Normal)
  let ?w1 = "w1\<lparr>trace := trace w1 @ [Init e create params]\<rparr>"
  note fresh = createElement_Inr [OF el]
  from fresh(1) have unalloc: "lookup w e = None" by (simp add: lookup_def)
  from fresh(1,2) wf_fresh [OF wf] have
    unattached: "e \<notin> attached w1" and noinit: "inits e (trace w1) = []"
    by simp_all
  have ev: "evolves ?w1 w2" using init by (rule evolves_call)
  from fresh(2) have lt: "e < length (heap ?w1)" using fresh(1) by simp
  have tag1: "tag_of ?w1 e = Some tag" using fresh(3) by simp
  from ev tag1 have tag2: "tag_of w2 e = Some tag" by (rule evolves_tag_of)
  have "inits e (trace w2) = inits e (trace ?w1)" using ev lt by (rule evolves_inits)
  with noinit have once: "inits e (trace w2) = [Init e create params]" by simp
  from w' tag2 have tag': "tag_of w' e = Some tag" by simp
  from w' once have once': "inits e (trace w') = [Init e create params]"
    by (simp add: instances_set_def)
  from w' have "instances w' e = Some handle" and "attached w' = attached w2"
    by (simp_all add: instances_set_def)
  with el v unalloc fresh(3) unattached noinit init once' tag' show ?thesis by blast
qed

theorem make_element_runs_initializer_once_witness:
  "\<exists>e w1 handle w2.
       createElement ''x-counter'' counter_defined = Inr (e, w1) \<and> Ref 5 = Ref e
     \<and> lookup counter_defined e = None \<and> tag_of w1 e = Some ''x-counter'' \<and> e \<notin> attached w1
     \<and> inits e (trace w1) = []
     \<and> call 1 (Ref 2) [Ref e, Undefined] (w1\<lparr>trace := trace w1 @ [Init e (Ref 2) Undefined]\<rparr>)
         = Some (Normal handle, w2)
     \<and> inits e (trace counter_made) = [Init e (Ref 2) Undefined]
     \<and> tag_of counter_made e = Some ''x-counter''
     \<and> instances counter_made e = Some handle
     \<and> attached counter_made = attached w2"
proof -
  have mk: "callable_of counter_defined (Ref 3) = Some (MakeElement ''x-counter'' (Ref 2))"
    by (simp add: counter_defined_def world_defs heap_simps)
  have ret: "call (Suc 1) (Ref 3) [Undefined] counter_defined = Some (Normal (Ref 5), counter_made)"
    using counter_page_made by (simp add: eval_nat_numeral)
  show ?thesis
    using make_element_runs_initializer_once [OF wf_counter_defined mk ret] by simp
qed

section \<open>The lifecycle callbacks\<close>





section \<open>The handle of an instance\<close>



section \<open>An initializer that throws\<close>

text \<open>
  Claim C5, as stated, fails in its last part: the map is not always unchanged. In the
  world \<open>family_defined\<close> the initializer of \<^verbatim>\<open>x-parent\<close> makes an \<^verbatim>\<open>x-child\<close> and then
  throws. The call of the parent's \<^verbatim>\<open>make_element\<close> throws too, and the map, empty
  before, holds the entry of the child (element 9) afterwards.
\<close>

theorem initializer_failure_changes_map_counterexample:
  "callable_of family_defined (Ref 6) = Some (MakeElement ''x-parent'' (Ref 5))
   \<and> call 4 (Ref 6) [Undefined] family_defined
       = Some (Abrupt (Thrown (Str ''boom'')), family_failed)
   \<and> instances family_defined 9 = None
   \<and> instances family_failed 9 = Some Undefined"
  by (simp add: eval_nat_numeral family_defined_def family_failed_def world_defs heap_simps
        platform_simps module_simps name_simps child_create_def parent_create_def)

text \<open>
  Claim C5, amended. If the initializer throws when \<^verbatim>\<open>make_element\<close> invokes it, the call
  of \<^verbatim>\<open>make_element\<close> throws the same error, so no instance is returned, and it ends in
  the very world in which the initializer threw: \<^verbatim>\<open>make_element\<close> writes nothing to the
  map. The new element has no entry, and the entry of every object that existed before the
  call is as it was; the map can differ only by entries of elements that the initializer's
  own run made.
\<close>

theorem initializer_failure_propagates:
  assumes wf: "wf w"
    and mk: "callable_of w mk = Some (MakeElement tag create)"
    and el: "createElement tag w = Inr (e, w1)"
    and thrown: "call n create [Ref e, params] (w1\<lparr>trace := trace w1 @ [Init e create params]\<rparr>)
                   = Some (Abrupt err, w2)"
  shows "call (Suc n) mk [params] w = Some (Abrupt err, w2)
       \<and> instances w2 e = None
       \<and> (\<forall>a < length (heap w). instances w2 a = instances w a)"
proof -
  let ?w1 = "w1\<lparr>trace := trace w1 @ [Init e create params]\<rparr>"
  from mk el thrown have res: "call (Suc n) mk [params] w = Some (Abrupt err, w2)"
    by (simp add: make_element_def arg_def)
  note fresh = createElement_Inr [OF el]
  have ev: "evolves ?w1 w2" using thrown by (rule evolves_call)
  from fresh(1,2) have len: "length (heap ?w1) = Suc (length (heap w))" by simp
  from fresh(1,2) have same: "instances ?w1 = instances w" by simp
  have "instances w2 e = instances ?w1 e"
    using ev fresh(1) len by (simp add: evolves_instances)
  with same fresh(1) wf_fresh(1) [OF wf] have none: "instances w2 e = None" by simp
  have "\<forall>a < length (heap w). instances w2 a = instances w a"
    using ev len same by (simp add: evolves_instances)
  with res none show ?thesis by blast
qed

theorem initializer_failure_propagates_witness:
  "call 4 (Ref 6) [Undefined] family_defined = Some (Abrupt (Thrown (Str ''boom'')), family_failed)
   \<and> instances family_failed 8 = None
   \<and> instances family_failed 7 = instances family_defined 7"
proof -
  let ?w1 = "family_defined\<lparr>heap := heap family_defined @ [element_object ''x-parent'']\<rparr>"
  have mk: "callable_of family_defined (Ref 6) = Some (MakeElement ''x-parent'' (Ref 5))"
    by (simp add: family_defined_def world_defs heap_simps)
  have el: "createElement ''x-parent'' family_defined = Inr (8, ?w1)"
    by (simp add: family_defined_def world_defs heap_simps platform_simps name_simps)
  have thrown: "call 3 (Ref 5) [Ref 8, Undefined]
      (?w1\<lparr>trace := trace ?w1 @ [Init 8 (Ref 5) Undefined]\<rparr>)
      = Some (Abrupt (Thrown (Str ''boom'')), family_failed)"
    by (simp add: eval_nat_numeral family_defined_def family_failed_def world_defs heap_simps
        platform_simps module_simps name_simps child_create_def parent_create_def)
  show ?thesis
    using initializer_failure_propagates [OF wf_family_defined mk el thrown]
    by (simp add: eval_nat_numeral family_defined_def)
qed

section \<open>Two definitions of one tag\<close>

text \<open>
  Claim C6. Let \<^verbatim>\<open>ui\<close> be called with a tag and an initializer, and later again with the
  same tag and another initializer. The two \<^verbatim>\<open>make_element\<close> functions are different
  objects, each closed over its own initializer for good. A call of the second one creates
  the element, calls the second initializer with it and \<open>params\<close>, stores what that
  call returns as the element's handle and ends in the world that the call left, with the
  entry added; the element is initialized once, by the second initializer and by nothing
  else. The second call of \<^verbatim>\<open>ui\<close> registers nothing: the registration of the tag is the
  one that stood after the first call (the class of this module when the first call made
  it), so the platform runs the same lifecycle callbacks for every element of the tag,
  whichever function made it.
\<close>

theorem second_make_uses_own_initializer:
  assumes wf: "wf w"
    and first: "ui t create1 w = (Normal mk1, w1)"
    and between: "run (call n) p w1 = Some (c, w2)"
    and second: "ui t create2 w2 = (Normal mk2, w3)"
    and later: "run (call m) q w3 = Some (c', w4)"
    and made: "call (Suc k) mk2 [params] w4 = Some (Normal v, w5)"
  shows "mk1 \<noteq> mk2
       \<and> callable_of w5 mk1 = Some (MakeElement t create1)
       \<and> callable_of w5 mk2 = Some (MakeElement t create2)
       \<and> (\<exists>e. v = Ref e \<and> tag_of w5 e = Some t \<and> inits e (trace w5) = [Init e create2 params])
       \<and> (\<exists>e v1 handle v2.
              v = Ref e \<and> createElement t w4 = Inr (e, v1)
            \<and> call k create2 [Ref e, params] (v1\<lparr>trace := trace v1 @ [Init e create2 params]\<rparr>)
                = Some (Normal handle, v2)
            \<and> w5 = instances_set e handle v2 \<and> instances w5 e = Some handle)
       \<and> registry w3 = registry w2 \<and> trace w3 = trace w2
       \<and> (\<exists>d. registry w1 t = Some d \<and> registry w5 t = Some d
              \<and> (registry w t = None \<longrightarrow> d = UiClass))
       \<and> (registry w t = None \<longrightarrow>
            (\<forall>a. tag_of w5 a = Some t \<longrightarrow>
               connected_reaction callf a w5 = report (connectedCallback callf (Ref a) w5)
             \<and> disconnected_reaction callf a w5 = report (disconnectedCallback callf (Ref a) w5)))"
proof -
  note u1 = ui_Normal [OF first]
  note u2 = ui_Normal [OF second]
  have e01: "evolves w w1" using first by (rule evolves_ui)
  have e12: "evolves w1 w2" using between by (rule evolves_program)
  have e23: "evolves w2 w3" using second by (rule evolves_ui)
  have e34: "evolves w3 w4" using later by (rule evolves_program)
  have e45: "evolves w4 w5" using made by (rule evolves_call)
  have e13: "evolves w1 w3" using e12 e23 by (rule evolves_trans)
  have e35: "evolves w3 w5" using e34 e45 by (rule evolves_trans)
  have e15: "evolves w1 w5" using e13 e35 by (rule evolves_trans)
  have e04: "evolves w w4" using e01 e13 e34 by (blast intro: evolves_trans)
  have "length (heap w) < length (heap w1)"
    using u1(2) by (simp add: lookup_def split: if_splits)
  also have "\<dots> \<le> length (heap w2)" using e12 by (rule evolves_length)
  finally have distinct: "mk1 \<noteq> mk2" using u1(1) u2(1) by simp
  have c1: "callable_of w1 mk1 = Some (MakeElement t create1)"
    using u1(1,2) by (simp add: callable_of_def make_object_def)
  have c2: "callable_of w3 mk2 = Some (MakeElement t create2)"
    using u2(1,2) by (simp add: callable_of_def make_object_def)
  have c1': "callable_of w5 mk1 = Some (MakeElement t create1)"
    using e15 c1 by (rule evolves_callable_of)
  have c2': "callable_of w5 mk2 = Some (MakeElement t create2)"
    using e35 c2 by (rule evolves_callable_of)
  have c24: "callable_of w4 mk2 = Some (MakeElement t create2)"
    using e34 c2 by (rule evolves_callable_of)
  have wf4: "wf w4" using e04 wf by (rule evolves_wf)
  from c24 made have "make_element (call k) t create2 params w4 = Some (Normal v, w5)"
    by (simp add: arg_def)
  then obtain e v1 handle v2 where
    el: "createElement t w4 = Inr (e, v1)" and v: "v = Ref e"
    and init: "call k create2 [Ref e, params] (v1\<lparr>trace := trace v1 @ [Init e create2 params]\<rparr>)
         = Some (Normal handle, v2)"
    and w5: "w5 = instances_set e handle v2"
    by (rule make_element_Normal)
  let ?v1 = "v1\<lparr>trace := trace v1 @ [Init e create2 params]\<rparr>"
  note fresh = createElement_Inr [OF el]
  have ev: "evolves ?v1 v2" using init by (rule evolves_call)
  have lt: "e < length (heap ?v1)" using fresh(1,2) by simp
  have "tag_of ?v1 e = Some t" using fresh(3) by simp
  with ev have "tag_of v2 e = Some t" by (rule evolves_tag_of)
  then have tag: "tag_of w5 e = Some t" using w5 by simp
  have "inits e (trace v1) = []" using fresh(1,2) wf_fresh(3) [OF wf4] by simp
  moreover have "inits e (trace v2) = inits e (trace ?v1)" using ev lt by (rule evolves_inits)
  ultimately have once: "inits e (trace w5) = [Init e create2 params]"
    using w5 by (simp add: instances_set_def)
  from w5 have stored: "instances w5 e = Some handle" by (simp add: instances_set_def)
  have inst: "\<exists>e. v = Ref e \<and> tag_of w5 e = Some t \<and> inits e (trace w5) = [Init e create2 params]"
    using v tag once by blast
  have runs: "\<exists>e v1 handle v2.
              v = Ref e \<and> createElement t w4 = Inr (e, v1)
            \<and> call k create2 [Ref e, params] (v1\<lparr>trace := trace v1 @ [Init e create2 params]\<rparr>)
                = Some (Normal handle, v2)
            \<and> w5 = instances_set e handle v2 \<and> instances w5 e = Some handle"
    using v el init w5 stored by blast
  have r2: "registry w2 t \<noteq> None"
    using u1(3) evolves_registry [OF e12, of t] by simp
  have skip: "registry w3 = registry w2" "trace w3 = trace w2"
    using ui_skips_registered [OF r2 second] by simp_all
  have reg: "\<exists>d. registry w1 t = Some d \<and> registry w5 t = Some d
              \<and> (registry w t = None \<longrightarrow> d = UiClass)"
    using u1(3,4) evolves_registry [OF e15, of t] by auto
  have "registry w t = None \<longrightarrow>
            (\<forall>a. tag_of w5 a = Some t \<longrightarrow>
               connected_reaction callf a w5 = report (connectedCallback callf (Ref a) w5)
             \<and> disconnected_reaction callf a w5 = report (disconnectedCallback callf (Ref a) w5))"
    using reg u1(4) by (auto simp: connected_reaction_def disconnected_reaction_def)
  with distinct c1' c2' inst runs skip reg show ?thesis by blast
qed

theorem second_make_uses_own_initializer_witness:
  "Ref 4 \<noteq> Ref 6
   \<and> callable_of twice_made (Ref 4) = Some (MakeElement ''x-counter'' (Ref 2))
   \<and> callable_of twice_made (Ref 6) = Some (MakeElement ''x-counter'' (Ref 3))
   \<and> tag_of twice_made 8 = Some ''x-counter''
   \<and> inits 8 (trace twice_made) = [Init 8 (Ref 3) Undefined]
   \<and> instances twice_made 8 = Some (Ref 9)
   \<and> lookup twice_made 9 = Some label_handle
   \<and> registry twice_defined = registry twice_once
   \<and> registry twice_once ''x-counter'' = Some UiClass
   \<and> registry twice_made ''x-counter'' = Some UiClass
   \<and> connected_reaction (call 1) 8 twice_made
       = report (connectedCallback (call 1) (Ref 8) twice_made)"
proof -
  have wf: "wf twice_start"
    by (auto simp: wf_def twice_start_def inits_def registrations_def)
  have first: "ui ''x-counter'' (Ref 2) twice_start = (Normal (Ref 4), twice_once)"
    by (simp add: eval_nat_numeral twice_start_def twice_once_def world_defs heap_simps
          platform_simps module_simps name_simps)
  have between: "run (call 0) (Return Undefined) twice_once = Some (Normal Undefined, twice_once)"
    by simp
  have second: "ui ''x-counter'' (Ref 3) twice_once = (Normal (Ref 6), twice_defined)"
    by (simp add: eval_nat_numeral twice_once_def twice_defined_def world_defs heap_simps
          platform_simps module_simps name_simps)
  have later: "run (call 0) (Return Undefined) twice_defined
      = Some (Normal Undefined, twice_defined)"
    by simp
  have made: "call (Suc 1) (Ref 6) [Undefined] twice_defined = Some (Normal (Ref 8), twice_made)"
    by (simp add: eval_nat_numeral twice_defined_def twice_made_def label_handle_def world_defs
          heap_simps platform_simps module_simps name_simps label_create_def)
  have none: "registry twice_start ''x-counter'' = None"
    by (simp add: twice_start_def)
  have handle: "lookup twice_made 9 = Some label_handle"
    by (simp add: twice_made_def lookup_def)
  have entry: "instances twice_made 8 = Some (Ref 9)"
    by (simp add: twice_made_def)
  have same: "registry twice_defined = registry twice_once"
    by (simp add: twice_defined_def twice_once_def)
  show ?thesis
    using second_make_uses_own_initializer [OF wf first between second later made,
        where callf = "call 1"] none handle entry same
    by auto
qed

section \<open>A tag that is already registered\<close>

text \<open>
  Claim C9. When the tag is already in the platform's registry, whoever registered it,
  \<^verbatim>\<open>ui\<close> registers nothing and changes nothing but the heap, where it puts a new frozen
  \<^verbatim>\<open>make_element\<close> function, which it returns. A call of that function is a call of
  \<^verbatim>\<open>make_element\<close> with the tag and the initializer: it creates the element, and when
  the initializer returns a handle it stores the handle under the element and returns the
  element. If the registration is another party's class, attaching or detaching an element
  of the tag runs that class's callbacks and nothing of this module.
\<close>

theorem ui_on_registered_tag:
  assumes reg: "registry w t = Some d"
    and u: "ui t create w = (c, w1)"
  shows "\<exists>a. c = Normal (Ref a) \<and> lookup w a = None
       \<and> lookup w1 a = Some (make_object t create a) \<and> frozen (make_object t create a)
       \<and> registry w1 = registry w \<and> trace w1 = trace w
       \<and> instances w1 = instances w \<and> attached w1 = attached w
       \<and> call (Suc n) (Ref a) [params] w1 = make_element (call n) t create params w1
       \<and> (\<forall>e v1 h w2. createElement t w1 = Inr (e, v1)
             \<and> call n create [Ref e, params] (v1\<lparr>trace := trace v1 @ [Init e create params]\<rparr>)
                 = Some (Normal h, w2)
           \<longrightarrow> call (Suc n) (Ref a) [params] w1 = Some (Normal (Ref e), instances_set e h w2)
               \<and> instances (instances_set e h w2) e = Some h)
       \<and> (\<forall>cc dc e w'. d = Foreign cc dc \<and> registry w' t = Some d \<and> tag_of w' e = Some t
           \<longrightarrow> connected_reaction callf e w'
                 = (if typeof_function w' cc then report (callf cc [Ref e] w') else Some w')
               \<and> disconnected_reaction callf e w'
                 = (if typeof_function w' dc then report (callf dc [Ref e] w') else Some w'))"
proof -
  from reg u obtain mk where c: "c = Normal mk"
    and same: "registry w1 = registry w" "trace w1 = trace w"
    using ui_skips_registered [of w t create c w1] by auto
  note un = ui_Normal [OF u [unfolded c]]
  let ?a = "length (heap w)"
  have callable: "callable_of w1 (Ref ?a) = Some (MakeElement t create)"
    using un(2) by (simp add: callable_of_def make_object_def)
  have call: "call (Suc n) (Ref ?a) [params] w1 = make_element (call n) t create params w1"
    using callable by (simp add: arg_def)
  have works: "\<forall>e v1 h w2. createElement t w1 = Inr (e, v1)
             \<and> call n create [Ref e, params] (v1\<lparr>trace := trace v1 @ [Init e create params]\<rparr>)
                 = Some (Normal h, w2)
           \<longrightarrow> call (Suc n) (Ref ?a) [params] w1 = Some (Normal (Ref e), instances_set e h w2)
               \<and> instances (instances_set e h w2) e = Some h"
    unfolding call by (auto simp: make_element_def instances_set_def)
  have foreign: "\<forall>cc dc e w'. d = Foreign cc dc \<and> registry w' t = Some d \<and> tag_of w' e = Some t
           \<longrightarrow> connected_reaction callf e w'
                 = (if typeof_function w' cc then report (callf cc [Ref e] w') else Some w')
               \<and> disconnected_reaction callf e w'
                 = (if typeof_function w' dc then report (callf dc [Ref e] w') else Some w')"
    by (auto simp: connected_reaction_def disconnected_reaction_def)
  have "lookup w ?a = None" by (simp add: lookup_def)
  moreover have "frozen (make_object t create ?a)" by (simp add: make_object_def)
  ultimately show ?thesis
    using c un(1,2,5,6) same call works foreign by blast
qed

theorem ui_on_registered_tag_witness:
  "ui ''x-widget'' (Ref 2) widget_registered = (Normal (Ref 3), widget_defined)
   \<and> registry widget_defined = registry widget_registered
   \<and> trace widget_defined = trace widget_registered
   \<and> call 2 (Ref 3) [Undefined] widget_defined = Some (Normal (Ref 5), widget_made)
   \<and> instances widget_made 5 = Some (Ref 7)
   \<and> connected_reaction (call 1) 5 (widget_made\<lparr>attached := {5}\<rparr>)
       = Some (widget_made\<lparr>attached := {5}\<rparr>)"
proof -
  let ?v1 = "widget_defined\<lparr>heap := heap widget_defined @ [element_object ''x-widget'']\<rparr>"
  let ?w2 = "widget_made\<lparr>instances := Map.empty\<rparr>"
  let ?w' = "widget_made\<lparr>attached := {5}\<rparr>"
  have reg: "registry widget_registered ''x-widget'' = Some (Foreign Undefined Undefined)"
    by (simp add: widget_registered_def)
  have u: "ui ''x-widget'' (Ref 2) widget_registered = (Normal (Ref 3), widget_defined)"
    by (simp add: eval_nat_numeral widget_registered_def widget_defined_def world_defs
          heap_simps platform_simps module_simps)
  have el: "createElement ''x-widget'' widget_defined = Inr (5, ?v1)"
    by (simp add: widget_defined_def world_defs heap_simps platform_simps name_simps)
  have init: "call 1 (Ref 2) [Ref 5, Undefined]
      (?v1\<lparr>trace := trace ?v1 @ [Init 5 (Ref 2) Undefined]\<rparr>) = Some (Normal (Ref 7), ?w2)"
    by (simp add: eval_nat_numeral widget_defined_def widget_made_def counter_handle_def
          world_defs heap_simps platform_simps counter_create_def)
  have set: "instances_set 5 (Ref 7) ?w2 = widget_made"
    by (simp add: widget_made_def instances_set_def)
  have tag: "tag_of ?w' 5 = Some ''x-widget''"
    by (simp add: widget_made_def world_defs heap_simps)
  have reg': "registry ?w' ''x-widget'' = Some (Foreign Undefined Undefined)"
    by (simp add: widget_made_def)
  have nofun: "\<not> typeof_function ?w' Undefined"
    by (simp add: heap_simps)
  from ui_on_registered_tag [OF reg u, where n = 1 and params = Undefined and callf = "call 1"]
  obtain a where a: "Normal (Ref 3) = Normal (Ref a)"
    and same: "registry widget_defined = registry widget_registered"
      "trace widget_defined = trace widget_registered"
    and works: "\<forall>e v1 h w2. createElement ''x-widget'' widget_defined = Inr (e, v1)
         \<and> call 1 (Ref 2) [Ref e, Undefined] (v1\<lparr>trace := trace v1 @ [Init e (Ref 2) Undefined]\<rparr>)
             = Some (Normal h, w2)
       \<longrightarrow> call (Suc 1) (Ref a) [Undefined] widget_defined
             = Some (Normal (Ref e), instances_set e h w2)
           \<and> instances (instances_set e h w2) e = Some h"
    and foreign: "\<forall>cc dc e w'. Foreign Undefined Undefined = Foreign cc dc
           \<and> registry w' ''x-widget'' = Some (Foreign Undefined Undefined)
           \<and> tag_of w' e = Some ''x-widget''
           \<longrightarrow> connected_reaction (call 1) e w'
                 = (if typeof_function w' cc then report (call 1 cc [Ref e] w') else Some w')
               \<and> disconnected_reaction (call 1) e w'
                 = (if typeof_function w' dc then report (call 1 dc [Ref e] w') else Some w')"
    by blast
  from a have a3: "a = 3" by simp
  have two: "Suc 1 = 2" by simp
  from works [rule_format, OF conjI [OF el init]]
  have made: "call 2 (Ref 3) [Undefined] widget_defined = Some (Normal (Ref 5), widget_made)"
    and entry: "instances widget_made 5 = Some (Ref 7)"
    unfolding set a3 two by blast+
  from foreign [rule_format, of Undefined Undefined ?w' 5] tag reg' nofun
  have "connected_reaction (call 1) 5 ?w' = Some ?w'"
    by metis
  with u same made entry show ?thesis by blast
qed

section \<open>Frozen functions\<close>

text \<open>
  Claim C8. The function that the module exports and every \<^verbatim>\<open>make_element\<close> function
  that it returns are frozen when they are handed out, and whatever application code
  runs afterwards they remain the objects they were, with the same three properties
  (\<^verbatim>\<open>name\<close>, \<^verbatim>\<open>length\<close>, \<^verbatim>\<open>prototype\<close>) and the same values. A write to a property
  of either, new or old, throws and changes nothing; so does the deletion of one of the
  three; the deletion of a property that the function does not have yields \<^verbatim>\<open>true\<close>
  and changes nothing. A write to \<^verbatim>\<open>__proto__\<close> goes to the inherited setter, which
  ignores a primitive value without throwing and is refused otherwise; it changes nothing
  either. (The freeze is not deep: nothing is said of the prototype objects.)
\<close>

theorem ui_and_make_are_frozen:
  assumes init: "module_init w = (uf, w0)"
    and before: "run (call n) p w0 = Some (c, w1)"
    and defined: "call (Suc m) uf [Str t, create] w1 = Some (Normal mk, w2)"
    and after: "run (call k) q w2 = Some (c', w3)"
  shows "\<exists>a b. uf = Ref a \<and> mk = Ref b
       \<and> lookup w0 a = Some (ui_object a) \<and> lookup w3 a = Some (ui_object a)
       \<and> frozen (ui_object a)
       \<and> lookup w2 b = Some (make_object t create b)
       \<and> lookup w3 b = Some (make_object t create b)
       \<and> frozen (make_object t create b)
       \<and> set_prop uf name x w3 =
           (if name = ''__proto__'' \<and> \<not> object_or_null x then Normal x
            else Abrupt TypeError, w3)
       \<and> set_prop mk name x w3 =
           (if name = ''__proto__'' \<and> \<not> object_or_null x then Normal x
            else Abrupt TypeError, w3)
       \<and> delete_prop uf name w3 =
           (if name \<in> {''name'', ''length'', ''prototype''} then Abrupt TypeError
            else Normal (Bool True), w3)
       \<and> delete_prop mk name w3 =
           (if name \<in> {''name'', ''length'', ''prototype''} then Abrupt TypeError
            else Normal (Bool True), w3)"
proof -
  note m = module_init_result [OF init]
  let ?a = "length (heap w)"
  have fu: "frozen (ui_object ?a)" by (simp add: ui_object_def)
  have e01: "evolves w0 w1" using before by (rule evolves_program)
  have e12: "evolves w1 w2" using defined by (rule evolves_call)
  have e23: "evolves w2 w3" using after by (rule evolves_program)
  have e03: "evolves w0 w3" using e01 e12 e23 by (blast intro: evolves_trans)
  have a1: "lookup w1 ?a = Some (ui_object ?a)" using e01 m(2) fu by (rule evolves_frozen)
  have a3: "lookup w3 ?a = Some (ui_object ?a)" using e03 m(2) fu by (rule evolves_frozen)
  from a1 m(1) have "callable_of w1 uf = Some UiFn"
    by (simp add: callable_of_def ui_object_def)
  with defined have "ui t create w1 = (Normal mk, w2)"
    by (simp add: arg_def)
  note u = ui_Normal [OF this]
  let ?b = "length (heap w1)"
  have fm: "frozen (make_object t create ?b)" by (simp add: make_object_def)
  have b3: "lookup w3 ?b = Some (make_object t create ?b)"
    using e23 u(2) fm by (rule evolves_frozen)
  have own_ui: "props (ui_object ?a) name = None
      \<longleftrightarrow> name \<notin> {''name'', ''length'', ''prototype''}"
    by (simp add: ui_object_def)
  have own_make: "props (make_object t create ?b) name = None
      \<longleftrightarrow> name \<notin> {''name'', ''length'', ''prototype''}"
    by (simp add: make_object_def)
  have ra: "set_prop uf name x w3 =
           (if name = ''__proto__'' \<and> \<not> object_or_null x then Normal x
            else Abrupt TypeError, w3)"
    "delete_prop uf name w3 =
           (if name \<in> {''name'', ''length'', ''prototype''} then Abrupt TypeError
            else Normal (Bool True), w3)"
    using frozen_rejects_writes [OF a3 fu] own_ui m(1) by auto
  have rb: "set_prop mk name x w3 =
           (if name = ''__proto__'' \<and> \<not> object_or_null x then Normal x
            else Abrupt TypeError, w3)"
    "delete_prop mk name w3 =
           (if name \<in> {''name'', ''length'', ''prototype''} then Abrupt TypeError
            else Normal (Bool True), w3)"
    using frozen_rejects_writes [OF b3 fm] own_make u(1) by auto
  show ?thesis
    using m u(1,2) a3 b3 fu fm ra rb by blast
qed

theorem ui_and_make_are_frozen_witness:
  "lookup counter_defined 0 = Some (ui_object 0)
   \<and> lookup counter_defined 3 = Some (make_object ''x-counter'' (Ref 2) 3)
   \<and> run (call 0) (SetProp (Ref 3) ''name'' (Str ''patched'') (Return Undefined)) counter_defined
       = Some (Abrupt TypeError, counter_defined)
   \<and> set_prop (Ref 3) ''extra'' (Num 1) counter_defined = (Abrupt TypeError, counter_defined)
   \<and> set_prop (Ref 3) ''__proto__'' (Num 1) counter_defined = (Normal (Num 1), counter_defined)
   \<and> set_prop (Ref 3) ''__proto__'' Null counter_defined = (Abrupt TypeError, counter_defined)
   \<and> delete_prop (Ref 0) ''length'' counter_defined = (Abrupt TypeError, counter_defined)
   \<and> delete_prop (Ref 3) ''prototype'' counter_defined = (Abrupt TypeError, counter_defined)
   \<and> delete_prop (Ref 3) ''nonexistent'' counter_defined = (Normal (Bool True), counter_defined)"
proof -
  have before: "run (call 0) (NewFunction [] 2 counter_create Return) loaded
      = Some (Normal (Ref 2),
              loaded\<lparr>heap := heap loaded @ [function_object [] 2 counter_create]\<rparr>)"
    by (simp add: loaded_def world_defs heap_simps)
  have defined: "call (Suc 0) (Ref 0) [Str ''x-counter'', Ref 2]
     (loaded\<lparr>heap := heap loaded @ [function_object [] 2 counter_create]\<rparr>)
     = Some (Normal (Ref 3), counter_defined)"
    using counter_page_defined by simp
  have after: "run (call 0) (SetProp (Ref 3) ''name'' (Str ''patched'') (Return Undefined))
      counter_defined = Some (Abrupt TypeError, counter_defined)"
    by (simp add: counter_defined_def world_defs heap_simps)
  note frozen = ui_and_make_are_frozen [OF module_init_empty before defined after]
  show ?thesis
    using frozen [where name = "''length''" and x = "Num 1"]
      frozen [where name = "''extra''" and x = "Num 1"]
      frozen [where name = "''prototype''" and x = "Num 1"]
      frozen [where name = "''nonexistent''" and x = "Num 1"]
      frozen [where name = "''__proto__''" and x = "Num 1"]
      frozen [where name = "''__proto__''" and x = Null] after
    by (auto simp: object_or_null_def)
qed

end
